theory Spec2Isabelle
  imports Main "HOL-Library.Signed_Division"
begin

section \<open>Go values\<close>

text \<open>
  A rune is a code point (Go's \<open>int32\<close>); the key constants below are runes. Go's \<open>int\<close>
  is modelled as \<open>int\<close>: every integer the completer computes is bounded by a slice
  length, the terminal width or the shared offset, far from the 64-bit limits.
  Go's \<open>/\<close> and \<open>%\<close> truncate towards zero (\<open>sdiv\<close>, \<open>smod\<close>) and panic on a zero divisor.

  A slice that the code may leave \<open>nil\<close> is an \<open>option\<close>: \<open>None\<close> is \<open>nil\<close>. A nil slice has
  length 0 and ranges over nothing.
\<close>

type_synonym rune = int

type_synonym 'a slice = "'a list option"

datatype panic =
    IndexOutOfRange
  | DivideByZero
  | NegativeRepeat
  | SliceBounds
  | NilFunc
  | BufferPanic

definition len :: "'a slice \<Rightarrow> int" where
  "len xs = (case xs of None \<Rightarrow> 0 | Some ys \<Rightarrow> int (length ys))"

definition elems :: "'a slice \<Rightarrow> 'a list" where
  "elems xs = (case xs of None \<Rightarrow> [] | Some ys \<Rightarrow> ys)"

definition at :: "'a slice \<Rightarrow> int \<Rightarrow> panic + 'a" where
  "at xs i = (if 0 \<le> i \<and> i < len xs then Inr (elems xs ! nat i) else Inl IndexOutOfRange)"

definition append1 :: "'a slice \<Rightarrow> 'a \<Rightarrow> 'a slice" where
  "append1 xs x = Some (elems xs @ [x])"

definition quo :: "int \<Rightarrow> int \<Rightarrow> panic + int" where
  "quo a b = (if b = 0 then Inl DivideByZero else Inr (a sdiv b))"

definition rem :: "int \<Rightarrow> int \<Rightarrow> panic + int" where
  "rem a b = (if b = 0 then Inl DivideByZero else Inr (a smod b))"

definition pbind :: "panic + 'a \<Rightarrow> ('a \<Rightarrow> panic + 'b) \<Rightarrow> panic + 'b" where
  "pbind m f = (case m of Inl e \<Rightarrow> Inl e | Inr x \<Rightarrow> f x)"

section \<open>Key codes (terminal.go, the constant block)\<close>

definition CharLineStart :: rune where "CharLineStart = 1"
definition CharBackward :: rune where "CharBackward = 2"
definition CharInterrupt :: rune where "CharInterrupt = 3"
definition CharDelete :: rune where "CharDelete = 4"
definition CharLineEnd :: rune where "CharLineEnd = 5"
definition CharForward :: rune where "CharForward = 6"
definition CharBell :: rune where "CharBell = 7"
definition CharCtrlH :: rune where "CharCtrlH = 8"
definition CharTab :: rune where "CharTab = 9"
definition CharCtrlJ :: rune where "CharCtrlJ = 10"
definition CharEnter :: rune where "CharEnter = 13"
definition CharNext :: rune where "CharNext = 14"
definition CharPrev :: rune where "CharPrev = 16"
definition CharTranspose :: rune where "CharTranspose = 20"
definition CharEsc :: rune where "CharEsc = 27"
definition CharO :: rune where "CharO = 79"
definition CharEscapeEx :: rune where "CharEscapeEx = 91"
definition CharBackspace :: rune where "CharBackspace = 127"

definition MetaBackward :: rune where "MetaBackward = - 1"
definition MetaForward :: rune where "MetaForward = - 2"
definition MetaDelete :: rune where "MetaDelete = - 3"
definition MetaBackspace :: rune where "MetaBackspace = - 4"
definition MetaTranspose :: rune where "MetaTranspose = - 5"

section \<open>The completion engine (opCompleter)\<close>

subsection \<open>Collaborators\<close>

text \<open>
  The line buffer (\<open>o.op.buf\<close>), the \<open>runes\<close> helpers and the completion provider
  (\<open>o.op.cfg.AutoComplete\<close>) are not part of the completer. The buffer is a value of an
  arbitrary type \<open>'b\<close>; what the completer calls on it is a field of \<open>collab\<close>:
  \<^item> \<open>Runes\<close>, \<open>Idx\<close> (the field \<open>buf.idx\<close>), \<open>WriteRunes\<close>, \<open>CursorLineCount\<close>, \<open>PromptLen\<close>;
  \<^item> \<open>RuneSlice\<close>, which slices the buffer around the cursor and may panic;
  \<^item> \<open>WidthAll\<close> and \<open>Aggregate\<close> of the \<open>runes\<close> helpers;
  \<^item> \<open>AutoComplete_Do\<close>, the provider's \<open>Do(line, pos)\<close>.
\<close>

record 'b collab =
  Runes :: "'b \<Rightarrow> rune slice"
  Idx :: "'b \<Rightarrow> int"
  WriteRunes :: "'b \<Rightarrow> rune list \<Rightarrow> 'b"
  CursorLineCount :: "'b \<Rightarrow> int"
  PromptLen :: "'b \<Rightarrow> int"
  RuneSlice :: "'b \<Rightarrow> int \<Rightarrow> panic + rune list"
  WidthAll :: "rune list \<Rightarrow> int"
  Aggregate :: "rune list list \<Rightarrow> rune list \<times> int"
  AutoComplete_Do :: "rune slice \<Rightarrow> int \<Rightarrow> rune list slice \<times> rune list slice \<times> int"

subsection \<open>State\<close>

text \<open>
  What \<open>CompleteRefresh\<close> writes to \<open>o.w\<close>, one item per write call of the source:
  \<open>Newlines n\<close> is \<open>"\n"\<close> repeated, \<open>ClearToEnd\<close> is \<open>ESC[J\<close>, \<open>HighlightOn\<close> is \<open>ESC[30;47m\<close>,
  \<open>HighlightOff\<close> is \<open>ESC[0m\<close>, \<open>Text\<close> is a rune string, \<open>CommentText\<close> is the comment between
  \<open>ESC[90m\<close> and \<open>ESC[39m\<close>, \<open>Pad n\<close> is \<open>n\<close> spaces, \<open>LineBreak\<close> is \<open>"\n"\<close>,
  \<open>CursorUp n\<close> is \<open>ESC[nA\r\<close> and \<open>CursorRight n\<close> is \<open>ESC[nC\<close>.
\<close>

datatype out_item =
    Newlines int
  | ClearToEnd
  | HighlightOn
  | HighlightOff
  | Text "rune list"
  | CommentText "rune list"
  | Pad int
  | LineBreak
  | CursorUp int
  | CursorRight int

text \<open>
  The fields of \<open>opCompleter\<close>. \<open>op_buf\<close> is \<open>o.op.buf\<close>; \<open>w_out\<close> is everything written to
  \<open>o.w\<close> so far; \<open>do_calls\<close> records the arguments of every call of the provider, in order
  (the provider is foreign code, so calling it is an effect). \<open>Operation\<close> embeds the
  completer, so \<open>o.op.candidate\<close> and \<open>o.op.candidateChoise\<close> are the completer's own fields.
\<close>

record 'b opCompleter =
  op_buf :: 'b
  width :: int
  inCompleteMode :: bool
  inSelectMode :: bool
  candidate :: "rune list slice"
  candidateComments :: "rune list slice"
  candidateSource :: "rune slice"
  candidateOff :: int
  candidateChoise :: int
  candidateColNum :: int
  w_out :: "out_item list"
  do_calls :: "(rune slice \<times> int) list"

definition newOpCompleter :: "'b \<Rightarrow> int \<Rightarrow> 'b opCompleter" where
  "newOpCompleter b wd =
     \<lparr> op_buf = b, width = wd, inCompleteMode = False, inSelectMode = False,
       candidate = None, candidateComments = None, candidateSource = None,
       candidateOff = 0, candidateChoise = 0, candidateColNum = 0,
       w_out = [], do_calls = [] \<rparr>"

definition IsInCompleteSelectMode :: "'b opCompleter \<Rightarrow> bool" where
  "IsInCompleteSelectMode s = inSelectMode s"

definition IsInCompleteMode :: "'b opCompleter \<Rightarrow> bool" where
  "IsInCompleteMode s = inCompleteMode s"

definition ExitCompleteSelectMode :: "'b opCompleter \<Rightarrow> 'b opCompleter" where
  "ExitCompleteSelectMode s =
     s\<lparr> inSelectMode := False, candidate := None, candidateComments := None,
        candidateChoise := - 1, candidateOff := - 1, candidateSource := None \<rparr>"

definition ExitCompleteMode :: "'b opCompleter \<Rightarrow> bool \<Rightarrow> 'b opCompleter" where
  "ExitCompleteMode s revent = ExitCompleteSelectMode (s\<lparr> inCompleteMode := False \<rparr>)"

definition OnWidthChange :: "'b opCompleter \<Rightarrow> int \<Rightarrow> 'b opCompleter" where
  "OnWidthChange s newWidth = s\<lparr> width := newWidth \<rparr>"

subsection \<open>Grid helpers\<close>

definition nextCandidate :: "'b opCompleter \<Rightarrow> int \<Rightarrow> panic + 'b opCompleter" where
  "nextCandidate s i =
     pbind (rem (candidateChoise s + i) (len (candidate s))) (\<lambda>c.
       Inr (s\<lparr> candidateChoise := (if c < 0 then len (candidate s) + c else c) \<rparr>))"

definition getMatrixSize :: "'b opCompleter \<Rightarrow> panic + int" where
  "getMatrixSize s =
     pbind (quo (len (candidate s)) (candidateColNum s)) (\<lambda>line.
     pbind (rem (len (candidate s)) (candidateColNum s)) (\<lambda>r.
       Inr ((if r \<noteq> 0 then line + 1 else line) * candidateColNum s)))"

subsection \<open>CompleteRefresh\<close>

text \<open>The first loop of \<open>CompleteRefresh\<close>: the widest candidate, comment included.\<close>

fun maxWidth :: "(rune list \<Rightarrow> int) \<Rightarrow> rune list slice \<Rightarrow> rune list list \<Rightarrow> int \<Rightarrow> int \<Rightarrow> panic + int" where
  "maxWidth W cm [] i colWidth = Inr colWidth"
| "maxWidth W cm (c # cs) i colWidth =
     (case at cm i of
        Inl e \<Rightarrow> Inl e
      | Inr cmt \<Rightarrow>
          (let w = W c + W cmt
           in maxWidth W cm cs (i + 1) (if w > colWidth then w else colWidth)))"

text \<open>
  The arithmetic between the two loops: from the widest candidate, the shared offset
  and the terminal width to the final column width and the column count.
\<close>

definition gridLayout :: "int \<Rightarrow> int \<Rightarrow> int \<Rightarrow> panic + (int \<times> int)" where
  "gridLayout maxw off termWidth =
     (let colWidth = maxw + (off + 1);
          wd = termWidth - 1
      in pbind (quo wd colWidth) (\<lambda>colNum.
           if colNum \<noteq> 0
           then pbind (quo (wd - colWidth * colNum) colNum) (\<lambda>extra. Inr (colWidth + extra, colNum))
           else Inr (colWidth, colNum)))"

definition repeat :: "int \<Rightarrow> (int \<Rightarrow> out_item) \<Rightarrow> panic + out_item" where
  "repeat n item = (if n < 0 then Inl NegativeRepeat else Inr (item n))"

text \<open>
  The second loop: one candidate per round; \<open>idx\<close> is the loop index, \<open>colIdx\<close> and \<open>lines\<close>
  the loop's counters, \<open>out\<close> what the rounds before have written.
\<close>

fun renderLoop ::
  "(rune list \<Rightarrow> int) \<Rightarrow> rune list slice \<Rightarrow> rune list \<Rightarrow> int \<Rightarrow> int \<Rightarrow> int \<Rightarrow> bool \<Rightarrow>
   rune list list \<Rightarrow> int \<Rightarrow> int \<Rightarrow> int \<Rightarrow> out_item list \<Rightarrow> panic + (int \<times> out_item list)" where
  "renderLoop W cm same colWidth colNum choise sel [] idx colIdx lines out = Inr (lines, out)"
| "renderLoop W cm same colWidth colNum choise sel (c # cs) idx colIdx lines out =
     (case at cm idx of
        Inl e \<Rightarrow> Inl e
      | Inr cmt \<Rightarrow>
          (let inSelect = (idx = choise \<and> sel);
               out1 = out @ (if inSelect then [HighlightOn] else []) @ [Text same, Text c]
                        @ (if length cmt > 0 then [CommentText cmt] else [])
           in case repeat (colWidth - W c - W same - W cmt) Pad of
                Inl e \<Rightarrow> Inl e
              | Inr pad \<Rightarrow>
                  (let out2 = out1 @ [pad] @ (if inSelect then [HighlightOff] else []);
                       colIdx1 = colIdx + 1
                   in if colIdx1 = colNum
                      then renderLoop W cm same colWidth colNum choise sel cs (idx + 1) 0 (lines + 1)
                             (out2 @ [LineBreak])
                      else renderLoop W cm same colWidth colNum choise sel cs (idx + 1) colIdx1 lines
                             out2)))"

text \<open>
  The rest of \<open>CompleteRefresh\<close> once the layout is known: the column count is stored,
  the grid is written and the cursor is moved back.
\<close>

definition renderGrid ::
  "'b collab \<Rightarrow> 'b opCompleter \<Rightarrow> rune list \<Rightarrow> int \<Rightarrow> int \<Rightarrow> panic + 'b opCompleter" where
  "renderGrid env s same colWidth colNum =
     (let lineCnt = CursorLineCount env (op_buf s);
          s1 = s\<lparr> candidateColNum := colNum \<rparr>
      in pbind (repeat lineCnt Newlines) (\<lambda>nl.
         pbind (renderLoop (WidthAll env) (candidateComments s1) same colWidth colNum
                  (candidateChoise s1) (IsInCompleteSelectMode s1) (elems (candidate s1))
                  0 0 1 [nl, ClearToEnd]) (\<lambda>(lines, out).
           Inr (s1\<lparr> w_out := w_out s1 @ out @
                  [CursorUp (lineCnt - 1 + lines),
                   CursorRight (Idx env (op_buf s1) + PromptLen env (op_buf s1))] \<rparr>))))"

definition CompleteRefresh :: "'b collab \<Rightarrow> 'b opCompleter \<Rightarrow> panic + 'b opCompleter" where
  "CompleteRefresh env s =
     (if \<not> inCompleteMode s then Inr s
      else
        pbind (maxWidth (WidthAll env) (candidateComments s) (elems (candidate s)) 0 0) (\<lambda>maxw.
        pbind (RuneSlice env (op_buf s) (- candidateOff s)) (\<lambda>same.
        pbind (gridLayout maxw (candidateOff s) (width s)) (\<lambda>(colWidth, colNum).
          renderGrid env s same colWidth colNum))))"

subsection \<open>Mode changes and the trigger\<close>

definition EnterCompleteSelectMode :: "'b collab \<Rightarrow> 'b opCompleter \<Rightarrow> panic + 'b opCompleter" where
  "EnterCompleteSelectMode env s =
     CompleteRefresh env (s\<lparr> inSelectMode := True, candidateChoise := - 1 \<rparr>)"

definition EnterCompleteMode ::
  "'b collab \<Rightarrow> 'b opCompleter \<Rightarrow> int \<Rightarrow> rune list slice \<Rightarrow> rune list slice \<Rightarrow> panic + 'b opCompleter" where
  "EnterCompleteMode env s offset cand comments =
     CompleteRefresh env
       (s\<lparr> inCompleteMode := True, candidate := cand, candidateComments := comments,
           candidateOff := offset \<rparr>)"

definition doSelect :: "'b collab \<Rightarrow> 'b opCompleter \<Rightarrow> panic + 'b opCompleter" where
  "doSelect env s =
     (if len (candidate s) = 1
      then pbind (at (candidate s) 0) (\<lambda>c.
             Inr (ExitCompleteMode (s\<lparr> op_buf := WriteRunes env (op_buf s) c \<rparr>) False))
      else pbind (nextCandidate s 1) (CompleteRefresh env))"

definition OnComplete :: "'b collab \<Rightarrow> 'b opCompleter \<Rightarrow> panic + ('b opCompleter \<times> bool)" where
  "OnComplete env s =
     (if width s = 0 then Inr (s, False)
      else if IsInCompleteSelectMode s
      then pbind (doSelect env s) (\<lambda>s1. Inr (s1, True))
      else
        let rs = Runes env (op_buf s)
        in if IsInCompleteMode s \<and> candidateSource s \<noteq> None \<and> elems rs = elems (candidateSource s)
           then pbind (EnterCompleteSelectMode env s) (\<lambda>s1.
                pbind (doSelect env s1) (\<lambda>s2. Inr (s2, True)))
           else
             let s1 = (ExitCompleteSelectMode s)\<lparr> candidateSource := rs \<rparr>;
                 pos = Idx env (op_buf s1);
                 (newLines, commentLines, offset) = AutoComplete_Do env rs pos;
                 s2 = s1\<lparr> do_calls := do_calls s1 @ [(rs, pos)] \<rparr>
             in if len newLines = 0 then Inr (ExitCompleteMode s2 False, True)
                else if \<not> IsInCompleteMode s2 \<and> len newLines = 1
                then pbind (at newLines 0) (\<lambda>c.
                       Inr (ExitCompleteMode (s2\<lparr> op_buf := WriteRunes env (op_buf s2) c \<rparr>) False, True))
                else if \<not> IsInCompleteMode s2 \<and> snd (Aggregate env (elems newLines)) > 0
                then Inr (ExitCompleteMode
                            (s2\<lparr> op_buf := WriteRunes env (op_buf s2) (fst (Aggregate env (elems newLines))) \<rparr>)
                            False, True)
                else pbind (EnterCompleteMode env s2 offset newLines commentLines) (\<lambda>s3. Inr (s3, True)))"

subsection \<open>Keys in select mode\<close>

text \<open>
  The \<open>switch\<close> of \<open>HandleCompleteSelect\<close>, in the order of the source; the second
  component of the result is the local \<open>next\<close>.
\<close>

definition selectKey :: "'b collab \<Rightarrow> rune \<Rightarrow> 'b opCompleter \<Rightarrow> panic + ('b opCompleter \<times> bool)" where
  "selectKey env r s =
     (if r = CharEnter \<or> r = CharCtrlJ
      then pbind (at (candidate s) (candidateChoise s)) (\<lambda>c.
             Inr (ExitCompleteMode (s\<lparr> op_buf := WriteRunes env (op_buf s) c \<rparr>) False, False))
      else if r = CharLineStart
      then pbind (rem (candidateChoise s) (candidateColNum s)) (\<lambda>num.
           pbind (nextCandidate s (- num)) (\<lambda>s1. Inr (s1, True)))
      else if r = CharLineEnd
      then pbind (rem (candidateChoise s) (candidateColNum s)) (\<lambda>m.
             let num = candidateColNum s - m - 1;
                 c1 = candidateChoise s + num
             in Inr (s\<lparr> candidateChoise :=
                         (if c1 \<ge> len (candidate s) then len (candidate s) - 1 else c1) \<rparr>, True))
      else if r = CharBackspace
      then Inr (ExitCompleteSelectMode s, False)
      else if r = CharTab \<or> r = CharForward
      then pbind (doSelect env s) (\<lambda>s1. Inr (s1, True))
      else if r = CharBell \<or> r = CharInterrupt
      then Inr (ExitCompleteMode s True, False)
      else if r = CharNext
      then (let tmpChoise = candidateChoise s + candidateColNum s
            in pbind (getMatrixSize s) (\<lambda>m.
                 if tmpChoise \<ge> m
                 then Inr (s\<lparr> candidateChoise := tmpChoise - m \<rparr>, True)
                 else if tmpChoise \<ge> len (candidate s)
                 then Inr (s\<lparr> candidateChoise := tmpChoise + candidateColNum s - m \<rparr>, True)
                 else Inr (s\<lparr> candidateChoise := tmpChoise \<rparr>, True)))
      else if r = CharBackward
      then pbind (nextCandidate s (- 1)) (\<lambda>s1. Inr (s1, True))
      else if r = CharPrev
      then (let tmpChoise = candidateChoise s - candidateColNum s
            in if tmpChoise < 0
               then pbind (getMatrixSize s) (\<lambda>m.
                      let t1 = tmpChoise + m
                      in Inr (s\<lparr> candidateChoise :=
                                  (if t1 \<ge> len (candidate s) then t1 - candidateColNum s else t1) \<rparr>,
                              True))
               else Inr (s\<lparr> candidateChoise := tmpChoise \<rparr>, True))
      else Inr (ExitCompleteSelectMode s, False))"

definition HandleCompleteSelect :: "'b collab \<Rightarrow> rune \<Rightarrow> 'b opCompleter \<Rightarrow> panic + ('b opCompleter \<times> bool)" where
  "HandleCompleteSelect env r s =
     pbind (selectKey env r s) (\<lambda>(s1, next).
       if next then pbind (CompleteRefresh env s1) (\<lambda>s2. Inr (s2, True))
       else Inr (s1, False))"

text \<open>The keys that move the selection.\<close>

definition isNavigationKey :: "rune \<Rightarrow> bool" where
  "isNavigationKey r =
     (r = CharLineStart \<or> r = CharLineEnd \<or> r = CharTab \<or> r = CharForward \<or>
      r = CharBackward \<or> r = CharNext \<or> r = CharPrev)"


definition selectView :: "'b opCompleter \<Rightarrow> bool \<times> int \<times> int" where
  "selectView s = (inSelectMode s, candidateChoise s, len (candidate s))"

subsection \<open>The layout in the words of the specification\<close>

text \<open>
  The width of a candidate is the width of its suffix plus the width of its comment; the
  column width is the maximum over the candidates plus the shared offset plus 1; the
  usable width is the terminal width minus 1; the column count is the usable width
  divided by the column width (Go's integer division); when the count is not 0 the
  leftover width is spread over the columns.
\<close>

definition spec_candidateWidths :: "'b collab \<Rightarrow> 'b opCompleter \<Rightarrow> int list" where
  "spec_candidateWidths env s =
     map2 (\<lambda>c cm. WidthAll env c + WidthAll env cm) (elems (candidate s)) (elems (candidateComments s))"

definition spec_colWidth :: "'b collab \<Rightarrow> 'b opCompleter \<Rightarrow> int" where
  "spec_colWidth env s = Max (set (spec_candidateWidths env s)) + candidateOff s + 1"

definition spec_usableWidth :: "'b opCompleter \<Rightarrow> int" where
  "spec_usableWidth s = width s - 1"

definition spec_colNum :: "'b collab \<Rightarrow> 'b opCompleter \<Rightarrow> int" where
  "spec_colNum env s = spec_usableWidth s sdiv spec_colWidth env s"

definition spec_finalColWidth :: "'b collab \<Rightarrow> 'b opCompleter \<Rightarrow> int" where
  "spec_finalColWidth env s =
     (if spec_colNum env s \<noteq> 0
      then spec_colWidth env s +
             (spec_usableWidth s - spec_colWidth env s * spec_colNum env s) sdiv spec_colNum env s
      else spec_colWidth env s)"

subsection \<open>A concrete line buffer\<close>

text \<open>
  To run the engine on examples: a buffer that is the runes of the line with the cursor
  offset, a prompt two columns wide, one column per rune, and a provider given as an
  argument.
\<close>

definition demoRuneSlice :: "rune list \<times> int \<Rightarrow> int \<Rightarrow> panic + rune list" where
  "demoRuneSlice b i =
     (if i > 0
      then (if snd b < 0 \<or> snd b + i > int (length (fst b)) then Inl BufferPanic
            else Inr (take (nat i) (drop (nat (snd b)) (fst b))))
      else (if snd b + i < 0 \<or> snd b > int (length (fst b)) then Inl BufferPanic
            else Inr (take (nat (- i)) (drop (nat (snd b + i)) (fst b)))))"

definition demoCollab ::
  "(rune slice \<Rightarrow> int \<Rightarrow> rune list slice \<times> rune list slice \<times> int) \<Rightarrow> (rune list \<times> int) collab" where
  "demoCollab provider =
     \<lparr> Runes = (\<lambda>b. Some (fst b)),
       Idx = snd,
       WriteRunes = (\<lambda>b rs. (take (nat (snd b)) (fst b) @ rs @ drop (nat (snd b)) (fst b),
                              snd b + int (length rs))),
       CursorLineCount = (\<lambda>b. 1),
       PromptLen = (\<lambda>b. 2),
       RuneSlice = demoRuneSlice,
       WidthAll = (\<lambda>rs. int (length rs)),
       Aggregate = (\<lambda>cs. ([], 0)),
       AutoComplete_Do = provider \<rparr>"

text \<open>A provider with a single candidate, and the engine after \<open>g\<close> has been typed.\<close>

definition oneCandidate :: "rune slice \<Rightarrow> int \<Rightarrow> rune list slice \<times> rune list slice \<times> int" where
  "oneCandidate line pos = (Some [[111]], Some [[]], 1)"

definition typedG :: "(rune list \<times> int) opCompleter" where
  "typedG = newOpCompleter ([103], 1) 80"

text \<open>
  Select mode over seven one-rune candidates in three columns on a terminal ten columns
  wide, after \<open>g\<close> has been typed; \<open>chosen\<close> is the highlighted candidate.
\<close>

definition sevenGrid :: "int \<Rightarrow> (rune list \<times> int) opCompleter" where
  "sevenGrid chosen =
     \<lparr> op_buf = ([103], 1), width = 10, inCompleteMode = True, inSelectMode = True,
       candidate = Some [[97], [98], [99], [100], [101], [102], [104]],
       candidateComments = Some [[], [], [], [], [], [], []],
       candidateSource = Some [103], candidateOff = 1, candidateChoise = chosen,
       candidateColNum = 3, w_out = [], do_calls = [] \<rparr>"

section \<open>The prefix completer\<close>

subsection \<open>Strings and the runes helpers\<close>

text \<open>
  A Go string is modelled by its code points. \<open>runes_of\<close> gives the runes of an ASCII
  literal, and \<open>go_string\<close> is the conversion \<open>string(line)\<close> of a rune slice, which
  replaces every rune that is not a valid code point by U+FFFD.
\<close>

definition runes_of :: "string \<Rightarrow> rune list" where
  "runes_of cs = map (\<lambda>c. int (of_char c)) cs"

definition go_string :: "rune list \<Rightarrow> rune list" where
  "go_string rs =
     map (\<lambda>r. if (0 \<le> r \<and> r < 55296) \<or> (57344 \<le> r \<and> r \<le> 1114111) then r else 65533) rs"

text \<open>Go's \<open>unicode.IsSpace\<close>: the Latin-1 spaces and the code points with the White_Space property.\<close>

definition IsSpace :: "rune \<Rightarrow> bool" where
  "IsSpace r =
     (r = 9 \<or> r = 10 \<or> r = 11 \<or> r = 12 \<or> r = 13 \<or> r = 32 \<or> r = 133 \<or> r = 160 \<or>
      r = 5760 \<or> (8192 \<le> r \<and> r \<le> 8202) \<or> r = 8232 \<or> r = 8233 \<or> r = 8239 \<or>
      r = 8287 \<or> r = 12288)"

text \<open>
  Modelled from the spec: \<open>runes.TrimSpaceLeft\<close> and \<open>runes.HasPrefix\<close>, helpers of this
  package that \<open>doInternal\<close> calls; the matcher is to "trim leading whitespace" from the
  line and to test whether "the input starts with" a name.
\<close>

definition TrimSpaceLeft :: "rune list \<Rightarrow> rune list" where
  "TrimSpaceLeft rs = dropWhile IsSpace rs"

definition HasPrefix :: "rune list \<Rightarrow> rune list \<Rightarrow> bool" where
  "HasPrefix r pre = (length pre \<le> length r \<and> take (length pre) r = pre)"

subsection \<open>Nodes\<close>

text \<open>
  The struct \<open>PrefixCompleter\<close>. A callback takes and returns Go strings; \<open>None\<close> is the
  nil callback of a static node.
\<close>

datatype PrefixCompleter =
  PrefixCompleter
    (Name: "rune list")
    (Comment: "rune list")
    (Dynamic: bool)
    (DynamicComments: "rune list slice")
    (Callback: "(rune list \<Rightarrow> rune list list \<times> rune list list) option")
    (Children: "PrefixCompleter list")

definition PcItem :: "rune list \<Rightarrow> rune list \<Rightarrow> PrefixCompleter list \<Rightarrow> PrefixCompleter" where
  "PcItem name comment pc = PrefixCompleter (name @ [32]) comment False None None pc"

definition NewPrefixCompleter :: "PrefixCompleter list \<Rightarrow> PrefixCompleter" where
  "NewPrefixCompleter pc = PcItem [] [] pc"

definition PcItemDynamic ::
  "(rune list \<Rightarrow> rune list list \<times> rune list list) \<Rightarrow> PrefixCompleter list \<Rightarrow> PrefixCompleter" where
  "PcItemDynamic callback pc = PrefixCompleter [] [] True None (Some callback) pc"

definition GetDynamicNames ::
  "PrefixCompleter \<Rightarrow> rune list \<Rightarrow> panic + (rune list slice \<times> rune list slice)" where
  "GetDynamicNames p line =
     (case Callback p of
        None \<Rightarrow> Inl NilFunc
      | Some f \<Rightarrow>
          (let (names1, comments1) = f (go_string line)
           in Inr (foldl (\<lambda>names name. append1 names (name @ [32])) None names1,
                   foldl (\<lambda>comments comment. append1 comments comment) None comments1)))"

subsection \<open>Matching\<close>

text \<open>
  The accumulator of the loops of \<open>doInternal\<close>: \<open>newLine\<close>, \<open>commentLine\<close>, \<open>offset\<close>,
  \<open>lineCompleter\<close> and \<open>goNext\<close>.
\<close>

type_synonym match_acc = "rune list slice \<times> rune list slice \<times> int \<times> PrefixCompleter option \<times> bool"

text \<open>The inner loop, over the names of one child; \<open>i\<close> is the loop index.\<close>

fun namesLoop ::
  "rune list \<Rightarrow> PrefixCompleter \<Rightarrow> rune list slice \<Rightarrow> rune list list \<Rightarrow> int \<Rightarrow> match_acc \<Rightarrow>
   panic + match_acc" where
  "namesLoop line child commentNames [] i acc = Inr acc"
| "namesLoop line child commentNames (childName # rest) i (newLine, commentLine, offset, lineCompleter, goNext) =
     (if length line \<ge> length childName
      then (if HasPrefix line childName
            then namesLoop line child commentNames rest (i + 1)
                   ((if length line = length childName then append1 newLine [32]
                     else append1 newLine childName),
                    commentLine, int (length childName), Some child, True)
            else namesLoop line child commentNames rest (i + 1)
                   (newLine, commentLine, offset, lineCompleter, goNext))
      else (if HasPrefix childName line
            then (case at commentNames i of
                    Inl e \<Rightarrow> Inl e
                  | Inr cmt \<Rightarrow>
                      namesLoop line child commentNames rest (i + 1)
                        (append1 newLine (drop (length line) childName), append1 commentLine cmt,
                         int (length line), Some child, goNext))
            else namesLoop line child commentNames rest (i + 1)
                   (newLine, commentLine, offset, lineCompleter, goNext)))"

text \<open>The outer loop, over the children of the node.\<close>

fun childrenLoop ::
  "rune list \<Rightarrow> rune list \<Rightarrow> PrefixCompleter list \<Rightarrow> match_acc \<Rightarrow> panic + match_acc" where
  "childrenLoop line origLine [] acc = Inr acc"
| "childrenLoop line origLine (child # rest) acc =
     (case (if Dynamic child then GetDynamicNames child origLine
            else Inr (Some [Name child], Some [Comment child])) of
        Inl e \<Rightarrow> Inl e
      | Inr (childNames, commentNames) \<Rightarrow>
          (case namesLoop line child commentNames (elems childNames) 0 acc of
             Inl e \<Rightarrow> Inl e
           | Inr acc1 \<Rightarrow> childrenLoop line origLine rest acc1))"

text \<open>
  The last loop looks for the first rune of \<open>line\<close> at or after \<open>offset\<close> that is not a
  space and takes the line from there: \<open>leftover\<close> is that \<open>tmpLine\<close>, or \<open>None\<close> when the
  loop ends without one.
\<close>

definition leftover :: "int \<Rightarrow> rune list \<Rightarrow> rune list option" where
  "leftover offset line =
     (case dropWhile (\<lambda>r. r = 32) (drop (nat offset) line) of
        [] \<Rightarrow> None
      | x # xs \<Rightarrow> Some (x # xs))"

lemma namesLoop_completer:
  "namesLoop line child cm ns i acc = Inr acc1 \<Longrightarrow>
   fst (snd (snd (snd acc1))) = Some child \<or> fst (snd (snd (snd acc1))) = fst (snd (snd (snd acc)))"
proof (induction ns arbitrary: i acc)
  case Nil
  then show ?case by simp
next
  case (Cons n ns)
  obtain nl cl off lc gn where acc: "acc = (nl, cl, off, lc, gn)"
    by (cases acc) auto
  from Cons.prems show ?case
    unfolding acc
    by (auto split: if_splits sum.splits dest!: Cons.IH)
qed

lemma childrenLoop_completer:
  "childrenLoop line orig cs acc = Inr acc1 \<Longrightarrow>
   (\<exists>c \<in> set cs. fst (snd (snd (snd acc1))) = Some c) \<or>
   fst (snd (snd (snd acc1))) = fst (snd (snd (snd acc)))"
proof (induction cs arbitrary: acc)
  case Nil
  then show ?case by simp
next
  case (Cons c cs)
  from Cons.prems obtain ns cm acc2 where
    names: "namesLoop line c cm ns 0 acc = Inr acc2" and
    rest: "childrenLoop line orig cs acc2 = Inr acc1"
    by (auto split: sum.splits if_splits)
  from namesLoop_completer [OF names] Cons.IH [OF rest] show ?case
    by auto
qed

lemma size_child: "c \<in> set cs \<Longrightarrow> size c < Suc (size_list size cs)"
  by (induction cs) auto

text \<open>
  \<open>doInternal\<close>. The slice \<open>line[:pos]\<close> panics when \<open>pos\<close> is outside the line (the
  capacity of the slice is taken to be its length); a nil \<open>line\<close> is the empty list.
\<close>

function doInternal ::
  "PrefixCompleter \<Rightarrow> rune list \<Rightarrow> int \<Rightarrow> rune list \<Rightarrow>
   panic + (rune list slice \<times> rune list slice \<times> int)" where
  "doInternal p line0 pos origLine =
     (if pos < 0 \<or> pos > int (length line0) then Inl SliceBounds
      else
        (let line = TrimSpaceLeft (take (nat pos) line0)
         in case childrenLoop line origLine (Children p) (None, None, 0, None, False) of
              Inl e \<Rightarrow> Inl e
            | Inr (newLine, commentLine, offset, lineCompleter, goNext) \<Rightarrow>
                if len newLine \<noteq> 1 then Inr (newLine, commentLine, offset)
                else (case lineCompleter of
                        None \<Rightarrow> Inl NilFunc
                      | Some lc \<Rightarrow>
                          (case leftover offset line of
                             Some tmpLine \<Rightarrow> doInternal lc tmpLine (int (length tmpLine)) origLine
                           | None \<Rightarrow>
                               if goNext then doInternal lc [] 0 origLine
                               else Inr (newLine, commentLine, offset)))))"
  by pat_completeness auto
termination
proof (relation "measure (\<lambda>(p, line0, pos, origLine). size p)")
  show "wf (measure (\<lambda>(p, line0, pos, origLine). size p))"
    by simp
next
  fix p :: PrefixCompleter and line0 :: "rune list" and pos :: int and origLine line :: "rune list"
    and x2 newLine y commentLine ya offset yb lineCompleter goNext lc and tmpLine :: "rune list"
  assume "childrenLoop line origLine (Children p) (None, None, 0, None, False) = Inr x2"
    and "(newLine, y) = x2" and "(commentLine, ya) = y" and "(offset, yb) = ya"
    and "(lineCompleter, goNext) = yb" and "lineCompleter = Some lc"
  then have "lc \<in> set (Children p)"
    by (auto dest!: childrenLoop_completer)
  then show "((lc, tmpLine, int (length tmpLine), origLine), p, line0, pos, origLine)
      \<in> measure (\<lambda>(p, line0, pos, origLine). size p)"
    by (cases p) (auto dest: size_child)
next
  fix p :: PrefixCompleter and line0 :: "rune list" and pos :: int and origLine line :: "rune list"
    and x2 newLine y commentLine ya offset yb lineCompleter goNext lc
  assume "childrenLoop line origLine (Children p) (None, None, 0, None, False) = Inr x2"
    and "(newLine, y) = x2" and "(commentLine, ya) = y" and "(offset, yb) = ya"
    and "(lineCompleter, goNext) = yb" and "lineCompleter = Some lc"
  then have "lc \<in> set (Children p)"
    by (auto dest!: childrenLoop_completer)
  then show "((lc, [], 0, origLine), p, line0, pos, origLine)
      \<in> measure (\<lambda>(p, line0, pos, origLine). size p)"
    by (cases p) (auto dest: size_child)
qed

definition Do :: "PrefixCompleter \<Rightarrow> rune list \<Rightarrow> int \<Rightarrow> panic + (rune list slice \<times> rune list slice \<times> int)" where
  "Do p line pos = doInternal p line pos line"

declare doInternal.simps [simp del]

text \<open>
  The tree whose root has the children \<open>status\<close> and \<open>show\<close>, built with \<open>PcItem\<close>, with their
  comments and their own children.
\<close>

definition statusShow ::
  "rune list \<Rightarrow> PrefixCompleter list \<Rightarrow> rune list \<Rightarrow> PrefixCompleter list \<Rightarrow> PrefixCompleter" where
  "statusShow c1 cs1 c2 cs2 =
     NewPrefixCompleter [PcItem (runes_of ''status'') c1 cs1, PcItem (runes_of ''show'') c2 cs2]"

text \<open>The slice that appending the elements of a list one by one to nil gives.\<close>

definition sliceOf :: "'a list \<Rightarrow> 'a slice" where
  "sliceOf xs = (if xs = [] then None else Some xs)"

section \<open>The terminal\<close>

subsection \<open>Escape sequences\<close>

text \<open>
  \<open>escapeKeyPair\<close>: the attribute string (digits and \<open>;\<close>) and the type rune of a sequence
  (the field \<open>typ\<close>, here \<open>ktyp\<close>).
\<close>

record escapeKeyPair =
  attr :: "rune list"
  ktyp :: rune

definition escapeExKey :: "escapeKeyPair \<Rightarrow> rune" where
  "escapeExKey key =
     (if ktyp key = 68 then CharBackward
      else if ktyp key = 67 then CharForward
      else if ktyp key = 65 then CharPrev
      else if ktyp key = 66 then CharNext
      else if ktyp key = 72 then CharLineStart
      else if ktyp key = 70 then CharLineEnd
      else if ktyp key = 126 then (if attr key = [51] then CharDelete else 0)
      else 0)"

definition escapeSS3Key :: "escapeKeyPair \<Rightarrow> rune" where
  "escapeSS3Key key =
     (if ktyp key = 68 then CharBackward
      else if ktyp key = 67 then CharForward
      else if ktyp key = 65 then CharPrev
      else if ktyp key = 66 then CharNext
      else if ktyp key = 72 then CharLineStart
      else if ktyp key = 70 then CharLineEnd
      else 0)"

text \<open>Go's \<open>strings.Split\<close> with a separator of one character.\<close>

fun Split :: "rune \<Rightarrow> rune list \<Rightarrow> rune list list" where
  "Split sep [] = [[]]"
| "Split sep (x # xs) =
     (if x = sep then [] # Split sep xs
      else (case Split sep xs of
              [] \<Rightarrow> [[x]]
            | y # ys \<Rightarrow> (x # y) # ys))"

text \<open>
  Go's \<open>strconv.Atoi\<close> on a 64-bit platform: an optional sign, then decimal digits only,
  and a value that fits \<open>int\<close>; \<open>None\<close> is the error.
\<close>

definition isDigit :: "rune \<Rightarrow> bool" where
  "isDigit d = (48 \<le> d \<and> d \<le> 57)"

definition Atoi :: "rune list \<Rightarrow> int option" where
  "Atoi s =
     (let neg = (case s of [] \<Rightarrow> False | c # _ \<Rightarrow> c = 45);
          ds = (case s of [] \<Rightarrow> [] | c # t \<Rightarrow> if c = 43 \<or> c = 45 then t else s)
      in if ds = [] \<or> \<not> list_all isDigit ds then None
         else (let n = foldl (\<lambda>a d. a * 10 + (d - 48)) 0 ds;
                   v = (if neg then - n else n)
               in if v < - (2 ^ 63) \<or> v > 2 ^ 63 - 1 then None else Some v))"

definition Get2 :: "escapeKeyPair \<Rightarrow> int \<times> int \<times> bool" where
  "Get2 e =
     (let sp = Split 59 (attr e)
      in if length sp < 2 then (- 1, - 1, False)
         else (case Atoi (sp ! 0) of
                 None \<Rightarrow> (- 1, - 1, False)
               | Some s1 \<Rightarrow>
                   (case Atoi (sp ! 1) of
                      None \<Rightarrow> (- 1, - 1, False)
                    | Some s2 \<Rightarrow> (s1, s2, True))))"

text \<open>
  Go's \<open>unicode.IsNumber\<close>: in Latin-1 the digits, the superscripts 1 to 3 and the three
  fractions; beyond Latin-1 the table of the category Number, the parameter \<open>tab\<close>.
\<close>

definition IsNumber :: "(rune \<Rightarrow> bool) \<Rightarrow> rune \<Rightarrow> bool" where
  "IsNumber tab r =
     (if 0 \<le> r \<and> r \<le> 255
      then isDigit r \<or> r = 178 \<or> r = 179 \<or> r = 185 \<or> r = 188 \<or> r = 189 \<or> r = 190
      else 255 < r \<and> tab r)"

text \<open>
  \<open>readEscKey\<close>. The reader is the list of the runes not yet read; a read at the end of
  the input gives the rune 0, which ends the loop. \<open>acc\<close> is the buffer of the attribute.
  The result is the pair and the rest of the input.
\<close>

fun readEscKeyLoop ::
  "(rune \<Rightarrow> bool) \<Rightarrow> rune \<Rightarrow> rune list \<Rightarrow> rune list \<Rightarrow> escapeKeyPair \<times> rune list" where
  "readEscKeyLoop tab r [] acc =
     (if r = 59 \<or> IsNumber tab r then (\<lparr> attr = acc @ [r], ktyp = 0 \<rparr>, [])
      else (\<lparr> attr = acc, ktyp = r \<rparr>, []))"
| "readEscKeyLoop tab r (x # xs) acc =
     (if r = 59 \<or> IsNumber tab r then readEscKeyLoop tab x xs (acc @ [r])
      else (\<lparr> attr = acc, ktyp = r \<rparr>, x # xs))"

definition readEscKey :: "(rune \<Rightarrow> bool) \<Rightarrow> rune \<Rightarrow> rune list \<Rightarrow> escapeKeyPair \<times> rune list" where
  "readEscKey tab r reader = readEscKeyLoop tab r reader []"

text \<open>\<open>escapeKey\<close>: the key and the rest of the input (\<open>UnreadRune\<close> puts the rune read back).\<close>

definition escapeKey :: "rune \<Rightarrow> rune list \<Rightarrow> rune \<times> rune list" where
  "escapeKey r reader =
     (if r = 98 then (MetaBackward, reader)
      else if r = 102 then (MetaForward, reader)
      else if r = 100 then (MetaDelete, reader)
      else if r = CharTranspose then (MetaTranspose, reader)
      else if r = CharBackspace then (MetaBackspace, reader)
      else if r = 79
      then (case reader of
              [] \<Rightarrow> (r, reader)
            | d # rest \<Rightarrow>
                if d = 72 then (CharLineStart, rest)
                else if d = 70 then (CharLineEnd, rest)
                else (r, reader))
      else (r, reader))"

subsection \<open>One round of the reader loop\<close>

text \<open>
  The reader loop runs beside its consumer; what is modelled is one round of it, as a
  function of the state at its start: which case of a \<open>select\<close> fires is an argument, and
  a hand-over on \<open>outchan\<close> appends the key to the keys handed over.
\<close>

text \<open>
  The state of \<open>ioloop\<close>: its four flags, the input not yet read (\<open>stdin\<close>), the content of
  the buffered channel \<open>sizeChan\<close> (capacity 1) and the keys handed over on \<open>outchan\<close>,
  in order.
\<close>

record ioloop_state =
  isEscape :: bool
  isEscapeEx :: bool
  isEscapeSS3 :: bool
  expectNextChar :: bool
  stdin :: "rune list"
  sizeChan :: "rune list list"
  outchan :: "rune list"

datatype read_error = Interrupted | OtherError

datatype flow = Continue ioloop_state | Return ioloop_state

text \<open>The non-blocking send \<open>select { case t.sizeChan <- v: default: }\<close>.\<close>

definition trySend :: "rune list list \<Rightarrow> rune list \<Rightarrow> rune list list" where
  "trySend ch v = (if length ch < 1 then ch @ [v] else ch)"

text \<open>
  The \<open>select\<close> between the stop signal and the hand-over of a key: \<open>stop\<close> tells which
  case fires.
\<close>

definition deliver :: "bool \<Rightarrow> rune \<Rightarrow> ioloop_state \<Rightarrow> flow" where
  "deliver stop r s = (if stop then Return s else Continue (s\<lparr> outchan := outchan s @ [r] \<rparr>))"

text \<open>The \<open>switch r\<close> that ends a round.\<close>

definition dispatch :: "bool \<Rightarrow> bool \<Rightarrow> rune \<Rightarrow> ioloop_state \<Rightarrow> flow" where
  "dispatch vimMode stop r s0 =
     (let s = s0\<lparr> expectNextChar := True \<rparr>
      in if r = CharEsc
         then (if vimMode
               then (case deliver stop r s of
                       Return s1 \<Rightarrow> Return s1
                     | Continue s1 \<Rightarrow> Continue (s1\<lparr> isEscape := True \<rparr>))
               else Continue (s\<lparr> isEscape := True \<rparr>))
         else if r = CharInterrupt \<or> r = CharEnter \<or> r = CharCtrlJ \<or> r = CharDelete
         then deliver stop r (s\<lparr> expectNextChar := False \<rparr>)
         else deliver stop r s)"

text \<open>
  A round of the loop of \<open>ioloop\<close> after its wait for a kick, from \<open>expectNextChar = false\<close>
  to the end of the round. \<open>err\<close> is the error of the read, if it fails other than by the
  end of the input; \<open>tab\<close> is the table of \<open>IsNumber\<close>, \<open>vimMode\<close> is \<open>cfg.VimMode\<close>.
\<close>

definition ioloop_round ::
  "(rune \<Rightarrow> bool) \<Rightarrow> bool \<Rightarrow> bool \<Rightarrow> read_error option \<Rightarrow> ioloop_state \<Rightarrow> flow" where
  "ioloop_round tab vimMode stop err s0 =
     (let s = s0\<lparr> expectNextChar := False \<rparr>
      in case err of
           Some Interrupted \<Rightarrow> Continue (s\<lparr> expectNextChar := True \<rparr>)
         | Some OtherError \<Rightarrow> Return s
         | None \<Rightarrow>
             (case stdin s of
                [] \<Rightarrow> Return s
              | r # input \<Rightarrow>
                  (let s1 = s\<lparr> stdin := input \<rparr>
                   in if isEscape s1
                      then (let s2 = s1\<lparr> isEscape := False \<rparr>
                            in if r = CharEscapeEx
                               then Continue (s2\<lparr> expectNextChar := True, isEscapeEx := True \<rparr>)
                               else if r = CharO
                               then Continue (s2\<lparr> expectNextChar := True, isEscapeSS3 := True \<rparr>)
                               else (let (r1, input1) = escapeKey r (stdin s2)
                                     in dispatch vimMode stop r1 (s2\<lparr> stdin := input1 \<rparr>)))
                      else if isEscapeEx s1
                      then (let s2 = s1\<lparr> isEscapeEx := False \<rparr>;
                                (key, input1) = readEscKey tab r (stdin s2);
                                s3 = s2\<lparr> stdin := input1 \<rparr>;
                                r1 = escapeExKey key
                            in if ktyp key = 82
                               then (let (_, _, ok) = Get2 key;
                                         s4 = (if ok then s3\<lparr> sizeChan := trySend (sizeChan s3) (attr key) \<rparr>
                                               else s3)
                                     in Continue (s4\<lparr> expectNextChar := True \<rparr>))
                               else if r1 = 0
                               then Continue (s3\<lparr> expectNextChar := True \<rparr>)
                               else dispatch vimMode stop r1 s3)
                      else if isEscapeSS3 s1
                      then (let s2 = s1\<lparr> isEscapeSS3 := False \<rparr>;
                                (key, input1) = readEscKey tab r (stdin s2);
                                s3 = s2\<lparr> stdin := input1 \<rparr>;
                                r1 = escapeSS3Key key
                            in if r1 = 0
                               then Continue (s3\<lparr> expectNextChar := True \<rparr>)
                               else dispatch vimMode stop r1 s3)
                      else dispatch vimMode stop r s1)))"

text \<open>
  \<open>ReadRune\<close>: what the receive \<open>ch, ok := <-t.outchan\<close> gives is either a key or the news
  that the channel is closed.
\<close>

datatype recv = Closed | Received rune

definition ReadRune :: "recv \<Rightarrow> rune" where
  "ReadRune rc = (case rc of Closed \<Rightarrow> 0 | Received ch \<Rightarrow> ch)"

subsection \<open>Close\<close>

text \<open>
  What \<open>Close\<close> touches: the flag \<open>closed\<close>, whether \<open>stopChan\<close> is closed already, and the
  effects so far, in order: closing stdin, closing \<open>stopChan\<close>, waiting for the reader
  loop (\<open>wg.Wait\<close>), leaving raw mode (\<open>cfg.FuncExitRaw\<close>). Of the configuration, whether
  \<open>cfg.Stdin\<close> implements \<open>io.Closer\<close> and the error \<open>cfg.FuncExitRaw\<close> returns (\<open>None\<close> is nil).
\<close>

datatype effect = StdinClose | StopChanClose | LoopWait | ExitRaw

datatype go_panic = CloseOfClosedChannel

record Terminal =
  closed :: int
  stopChanClosed :: bool
  effects :: "effect list"

record Config =
  stdinIsCloser :: bool
  exitRawError :: "string option"

definition NewTerminal :: Terminal where
  "NewTerminal = \<lparr> closed = 0, stopChanClosed = False, effects = [] \<rparr>"

definition Close :: "Config \<Rightarrow> Terminal \<Rightarrow> go_panic + (Terminal \<times> string option)" where
  "Close cfg t =
     (let old = closed t;
          t1 = t\<lparr> closed := 1 \<rparr>
      in if old \<noteq> 0 then Inr (t1, None)
         else
           (let t2 = (if stdinIsCloser cfg then t1\<lparr> effects := effects t1 @ [StdinClose] \<rparr> else t1)
            in if stopChanClosed t2 then Inl CloseOfClosedChannel
               else
                 (let t3 = t2\<lparr> stopChanClosed := True, effects := effects t2 @ [StopChanClose] \<rparr>;
                      t4 = t3\<lparr> effects := effects t3 @ [LoopWait] \<rparr>;
                      t5 = t4\<lparr> effects := effects t4 @ [ExitRaw] \<rparr>
                  in Inr (t5, exitRawError cfg))))"

text \<open>
  The reader after \<open>ESC [\<close>, with the rest of the input and the content of \<open>sizeChan\<close>.
\<close>

definition csiPending :: "rune list \<Rightarrow> rune list list \<Rightarrow> ioloop_state" where
  "csiPending input slot =
     \<lparr> isEscape = False, isEscapeEx = True, isEscapeSS3 = False, expectNextChar = True,
       stdin = input, sizeChan = slot, outchan = [] \<rparr>"

section \<open>Properties of the completion engine\<close>

lemmas key_defs =
  CharLineStart_def CharBackward_def CharInterrupt_def CharDelete_def CharLineEnd_def
  CharForward_def CharBell_def CharCtrlH_def CharTab_def CharCtrlJ_def CharEnter_def
  CharNext_def CharPrev_def CharTranspose_def CharEsc_def CharO_def CharEscapeEx_def
  CharBackspace_def MetaBackward_def MetaForward_def MetaDelete_def MetaBackspace_def
  MetaTranspose_def

lemmas engine_defs =
  OnComplete_def IsInCompleteSelectMode_def IsInCompleteMode_def ExitCompleteSelectMode_def
  ExitCompleteMode_def EnterCompleteMode_def EnterCompleteSelectMode_def doSelect_def
  nextCandidate_def getMatrixSize_def CompleteRefresh_def renderGrid_def gridLayout_def
  HandleCompleteSelect_def selectKey_def
  pbind_def at_def len_def elems_def quo_def rem_def repeat_def Let_def

lemmas demo_defs = demoCollab_def demoRuneSlice_def newOpCompleter_def
  signed_divide_int_def signed_modulo_int_def

subsection \<open>What a refresh leaves alone\<close>

lemma renderGrid_frame:
  "renderGrid env s same cw cn = Inr s' \<Longrightarrow>
   \<exists>out. s' = s\<lparr> candidateColNum := cn, w_out := w_out s @ out \<rparr>"
  by (auto simp: renderGrid_def pbind_def Let_def split: sum.splits prod.splits)

lemma CompleteRefresh_frame:
  "CompleteRefresh env s = Inr s' \<Longrightarrow>
   \<exists>cn out. s' = s\<lparr> candidateColNum := cn, w_out := w_out s @ out \<rparr>"
proof (cases "inCompleteMode s")
  case False
  assume "CompleteRefresh env s = Inr s'"
  with False have "s' = s" by (simp add: CompleteRefresh_def)
  then have "s' = s\<lparr> candidateColNum := candidateColNum s, w_out := w_out s @ [] \<rparr>" by simp
  then show ?thesis by blast
next
  case True
  assume "CompleteRefresh env s = Inr s'"
  with True obtain same cw cn where "renderGrid env s same cw cn = Inr s'"
    by (auto simp: CompleteRefresh_def pbind_def split: sum.splits prod.splits)
  from renderGrid_frame [OF this] show ?thesis by blast
qed

subsection \<open>The trigger\<close>

text \<open>
  C1, as amended. On a fresh trigger (the width is not 0, the engine is not in select
  mode, and there is no snapshot or the buffer differs from it) for which the provider
  returns exactly one candidate \<open>c\<close>: when the engine is not in complete mode,
  \<open>OnComplete\<close> writes \<open>c\<close> to the buffer and leaves completion, both flags false. When the
  engine is in complete mode already, nothing is written: every return of \<open>OnComplete\<close>
  has the engine in complete mode with \<open>c\<close> as its only listed candidate.
\<close>

theorem OnComplete_single_candidate:
  assumes "width s \<noteq> 0" and "\<not> inSelectMode s"
    and "candidateSource s = None \<or> elems (Runes env (op_buf s)) \<noteq> elems (candidateSource s)"
    and "AutoComplete_Do env (Runes env (op_buf s)) (Idx env (op_buf s)) = (Some [c], comments, off)"
  shows "(\<not> inCompleteMode s \<longrightarrow>
            (\<exists>s'. OnComplete env s = Inr (s', True) \<and> op_buf s' = WriteRunes env (op_buf s) c \<and>
                  \<not> inCompleteMode s' \<and> \<not> inSelectMode s')) \<and>
         (inCompleteMode s \<longrightarrow>
            (\<forall>s' b. OnComplete env s = Inr (s', b) \<longrightarrow>
               b \<and> inCompleteMode s' \<and> \<not> inSelectMode s' \<and> op_buf s' = op_buf s \<and>
               candidate s' = Some [c]))"
proof (intro conjI impI allI; (elim conjE)?)
  assume "\<not> inCompleteMode s"
  with assms show "\<exists>s'. OnComplete env s = Inr (s', True) \<and> op_buf s' = WriteRunes env (op_buf s) c \<and>
                  \<not> inCompleteMode s' \<and> \<not> inSelectMode s'"
    by (auto simp: OnComplete_def IsInCompleteSelectMode_def IsInCompleteMode_def
        ExitCompleteSelectMode_def ExitCompleteMode_def pbind_def at_def len_def elems_def Let_def)
next
  fix s' b
  assume cm: "inCompleteMode s" and run: "OnComplete env s = Inr (s', b)"
  let ?s2 = "(ExitCompleteSelectMode s)\<lparr> candidateSource := Runes env (op_buf s),
               do_calls := do_calls s @ [(Runes env (op_buf s), Idx env (op_buf s))] \<rparr>"
  let ?s3 = "?s2\<lparr> inCompleteMode := True, candidate := Some [c],
               candidateComments := comments, candidateOff := off \<rparr>"
  from assms cm run have "b" and enter: "EnterCompleteMode env ?s2 off (Some [c]) comments = Inr s'"
    by (auto simp: OnComplete_def IsInCompleteSelectMode_def IsInCompleteMode_def
        ExitCompleteSelectMode_def pbind_def len_def Let_def split: sum.splits)
  from CompleteRefresh_frame [OF enter [unfolded EnterCompleteMode_def]]
  obtain cn out where "s' = ?s3\<lparr> candidateColNum := cn, w_out := w_out ?s3 @ out \<rparr>"
    by blast
  with \<open>b\<close> have "b \<and> inCompleteMode s' \<and> \<not> inSelectMode s' \<and> op_buf s' = op_buf s \<and>
               candidate s' = Some [c]"
    by (simp add: ExitCompleteSelectMode_def)
  then show "b" and "inCompleteMode s'" and "\<not> inSelectMode s'" and "op_buf s' = op_buf s"
    and "candidate s' = Some [c]"
    by simp_all
qed

theorem OnComplete_single_candidate_witness:
  "width typedG \<noteq> 0 \<and> \<not> inSelectMode typedG \<and> candidateSource typedG = None \<and>
   \<not> inCompleteMode typedG \<and>
   (\<exists>s'. OnComplete (demoCollab oneCandidate) typedG = Inr (s', True) \<and>
         op_buf s' = ([103, 111], 2) \<and> \<not> inCompleteMode s' \<and> \<not> inSelectMode s')"
  using OnComplete_single_candidate [of typedG "demoCollab oneCandidate" "[111]" "Some [[]]" 1]
  by (simp add: typedG_def oneCandidate_def demo_defs)

text \<open>
  Without the restriction to states outside complete mode the first part fails: in
  complete mode, with no snapshot and a provider that returns the single candidate \<open>o\<close>,
  the trigger leaves the buffer \<open>g\<close> as it is and the engine in complete mode, the
  candidate listed.
\<close>

theorem OnComplete_single_candidate_listed:
  "\<not> inSelectMode (typedG\<lparr> inCompleteMode := True \<rparr>) \<and>
   candidateSource (typedG\<lparr> inCompleteMode := True \<rparr>) = None \<and>
   AutoComplete_Do (demoCollab oneCandidate)
      (Runes (demoCollab oneCandidate) (op_buf (typedG\<lparr> inCompleteMode := True \<rparr>)))
      (Idx (demoCollab oneCandidate) (op_buf (typedG\<lparr> inCompleteMode := True \<rparr>)))
     = (Some [[111]], Some [[]], 1) \<and>
   OnComplete (demoCollab oneCandidate) (typedG\<lparr> inCompleteMode := True \<rparr>) =
     Inr (\<lparr> op_buf = ([103], 1), width = 80, inCompleteMode = True,
            inSelectMode = False, candidate = Some [[111]],
            candidateComments = Some [[]], candidateSource = Some [103],
            candidateOff = 1, candidateChoise = - 1, candidateColNum = 26,
            w_out = [Newlines 1, ClearToEnd, Text [103], Text [111], Pad 1,
                     CursorUp 1, CursorRight 3],
            do_calls = [(Some [103], 1)] \<rparr>, True)"
  by (simp add: typedG_def oneCandidate_def demo_defs engine_defs)

subsection \<open>Moving in the grid\<close>

lemma CompleteRefresh_choise:
  "CompleteRefresh env s = Inr s' \<Longrightarrow> candidateChoise s' = candidateChoise s"
  by (auto dest!: CompleteRefresh_frame)

lemma selectKey_Next_5:
  "len (candidate s) = 7 \<Longrightarrow> candidateColNum s = 3 \<Longrightarrow> candidateChoise s = 5 \<Longrightarrow>
   selectKey env CharNext s = Inr (s\<lparr> candidateChoise := 2 \<rparr>, True)"
  by (simp add: selectKey_def getMatrixSize_def pbind_def quo_def rem_def key_defs Let_def
      signed_divide_int_def signed_modulo_int_def)

lemma selectKey_Prev_1:
  "len (candidate s) = 7 \<Longrightarrow> candidateColNum s = 3 \<Longrightarrow> candidateChoise s = 1 \<Longrightarrow>
   selectKey env CharPrev s = Inr (s\<lparr> candidateChoise := 4 \<rparr>, True)"
  by (simp add: selectKey_def getMatrixSize_def pbind_def quo_def rem_def key_defs Let_def
      signed_divide_int_def signed_modulo_int_def)

text \<open>
  C2. With 7 candidates in 3 columns, \<open>Next\<close> from the chosen index 5 gives the index 2
  and \<open>Prev\<close> from the chosen index 1 gives the index 4: whenever the refresh that ends
  \<open>HandleCompleteSelect\<close> succeeds on the state with the new index, the call returns that
  refreshed state, with the new index, and \<open>true\<close>.
\<close>

theorem grid_wraparound:
  assumes "len (candidate s) = 7" and "candidateColNum s = 3"
  shows "(candidateChoise s = 5 \<longrightarrow>
            (\<forall>s2. CompleteRefresh env (s\<lparr> candidateChoise := 2 \<rparr>) = Inr s2 \<longrightarrow>
               HandleCompleteSelect env CharNext s = Inr (s2, True) \<and> candidateChoise s2 = 2)) \<and>
         (candidateChoise s = 1 \<longrightarrow>
            (\<forall>s2. CompleteRefresh env (s\<lparr> candidateChoise := 4 \<rparr>) = Inr s2 \<longrightarrow>
               HandleCompleteSelect env CharPrev s = Inr (s2, True) \<and> candidateChoise s2 = 4))"
  using assms
  by (auto simp: HandleCompleteSelect_def selectKey_Next_5 selectKey_Prev_1 pbind_def
      dest: CompleteRefresh_choise)

theorem grid_wraparound_witness:
  "len (candidate (sevenGrid 5)) = 7 \<and> candidateColNum (sevenGrid 5) = 3 \<and>
   candidateChoise (sevenGrid 5) = 5 \<and> inSelectMode (sevenGrid 5) \<and>
   (\<exists>s2. HandleCompleteSelect (demoCollab oneCandidate) CharNext (sevenGrid 5) = Inr (s2, True) \<and>
         candidateChoise s2 = 2) \<and>
   len (candidate (sevenGrid 1)) = 7 \<and> candidateColNum (sevenGrid 1) = 3 \<and>
   candidateChoise (sevenGrid 1) = 1 \<and> inSelectMode (sevenGrid 1) \<and>
   (\<exists>s2. HandleCompleteSelect (demoCollab oneCandidate) CharPrev (sevenGrid 1) = Inr (s2, True) \<and>
         candidateChoise s2 = 4)"
proof -
  have "\<exists>s2. CompleteRefresh (demoCollab oneCandidate) (sevenGrid 5\<lparr> candidateChoise := 2 \<rparr>) = Inr s2"
    by (simp add: sevenGrid_def demo_defs engine_defs)
  then obtain s2 where
    next5: "CompleteRefresh (demoCollab oneCandidate) (sevenGrid 5\<lparr> candidateChoise := 2 \<rparr>) = Inr s2"
    by blast
  have "\<exists>s4. CompleteRefresh (demoCollab oneCandidate) (sevenGrid 1\<lparr> candidateChoise := 4 \<rparr>) = Inr s4"
    by (simp add: sevenGrid_def demo_defs engine_defs)
  then obtain s4 where
    prev1: "CompleteRefresh (demoCollab oneCandidate) (sevenGrid 1\<lparr> candidateChoise := 4 \<rparr>) = Inr s4"
    by blast
  from next5 prev1
    grid_wraparound [of "sevenGrid 5" "demoCollab oneCandidate"]
    grid_wraparound [of "sevenGrid 1" "demoCollab oneCandidate"]
  show ?thesis
    by (auto simp: sevenGrid_def len_def)
qed

subsection \<open>Backspace in select mode\<close>

lemma CompleteRefresh_calls:
  "CompleteRefresh env s = Inr s' \<Longrightarrow> do_calls s' = do_calls s"
  by (auto dest!: CompleteRefresh_frame)

lemma OnComplete_fresh_calls:
  assumes "width s \<noteq> 0" and "\<not> inSelectMode s" and "candidateSource s = None"
    and "OnComplete env s = Inr (s', b)"
  shows "do_calls s' = do_calls s @ [(Runes env (op_buf s), Idx env (op_buf s))]"
  using assms
  by (auto simp: OnComplete_def IsInCompleteSelectMode_def IsInCompleteMode_def
      ExitCompleteSelectMode_def ExitCompleteMode_def EnterCompleteMode_def pbind_def Let_def
      split: sum.splits prod.splits if_splits dest!: CompleteRefresh_calls)

text \<open>
  C8. \<open>HandleCompleteSelect\<close> on Backspace returns \<open>false\<close> and the state in which select
  mode is off, the candidates and the comments are nil, the chosen index and the shared
  offset are -1 and the snapshot is nil; \<open>inCompleteMode\<close> is what it was. Whatever the
  buffer and the nonzero width are by then, every return of the next \<open>OnComplete\<close> has
  called the provider once more, on the buffer of that moment.
\<close>

theorem Backspace_clears_candidates:
  "HandleCompleteSelect env CharBackspace s =
     Inr (s\<lparr> inSelectMode := False, candidate := None, candidateComments := None,
             candidateChoise := - 1, candidateOff := - 1, candidateSource := None \<rparr>, False) \<and>
   (\<forall>s1 b1. HandleCompleteSelect env CharBackspace s = Inr (s1, b1) \<longrightarrow>
      inCompleteMode s1 = inCompleteMode s \<and>
      (\<forall>buf' wd s2 b2. wd \<noteq> 0 \<longrightarrow>
         OnComplete env (s1\<lparr> op_buf := buf', width := wd \<rparr>) = Inr (s2, b2) \<longrightarrow>
         do_calls s2 = do_calls s @ [(Runes env buf', Idx env buf')]))"
proof -
  have eq: "HandleCompleteSelect env CharBackspace s =
     Inr (s\<lparr> inSelectMode := False, candidate := None, candidateComments := None,
             candidateChoise := - 1, candidateOff := - 1, candidateSource := None \<rparr>, False)"
    by (simp add: HandleCompleteSelect_def selectKey_def ExitCompleteSelectMode_def pbind_def key_defs)
  show ?thesis
    unfolding eq
    by (auto dest!: OnComplete_fresh_calls [rotated 3])
qed

theorem Backspace_clears_candidates_witness:
  "inSelectMode (sevenGrid 1) \<and> inCompleteMode (sevenGrid 1) \<and>
   (\<exists>s1. HandleCompleteSelect (demoCollab oneCandidate) CharBackspace (sevenGrid 1) = Inr (s1, False) \<and>
      inCompleteMode s1 \<and> \<not> inSelectMode s1 \<and> candidate s1 = None \<and> candidateComments s1 = None \<and>
      candidateChoise s1 = - 1 \<and> candidateOff s1 = - 1 \<and> candidateSource s1 = None \<and>
      (\<exists>s2. OnComplete (demoCollab oneCandidate) (s1\<lparr> op_buf := ([103], 1), width := 10 \<rparr>) = Inr (s2, True) \<and>
          do_calls s2 = [(Some [103], 1)]))"
proof -
  let ?env = "demoCollab oneCandidate"
  let ?s1 = "(sevenGrid 1)\<lparr> inSelectMode := False, candidate := None, candidateComments := None,
             candidateChoise := - 1, candidateOff := - 1, candidateSource := None \<rparr>"
  note bs = Backspace_clears_candidates [of ?env "sevenGrid 1"]
  from bs have bsp: "HandleCompleteSelect ?env CharBackspace (sevenGrid 1) = Inr (?s1, False)"
    by (rule conjunct1)
  have "\<exists>s2. OnComplete ?env (?s1\<lparr> op_buf := ([103], 1), width := 10 \<rparr>) = Inr (s2, True)"
    by (simp add: sevenGrid_def oneCandidate_def demo_defs engine_defs)
  then obtain s2 where run: "OnComplete ?env (?s1\<lparr> op_buf := ([103], 1), width := 10 \<rparr>) = Inr (s2, True)"
    by blast
  have "(10::int) \<noteq> 0" by simp
  with bs bsp run
  have "do_calls s2 = do_calls (sevenGrid 1) @ [(Runes ?env ([103], 1), Idx ?env ([103], 1))]"
    by blast
  then have calls: "do_calls s2 = [(Some [103], 1)]"
    by (simp add: sevenGrid_def demoCollab_def)
  have "inCompleteMode ?s1 \<and> \<not> inSelectMode ?s1 \<and> candidate ?s1 = None \<and> candidateComments ?s1 = None \<and>
      candidateChoise ?s1 = - 1 \<and> candidateOff ?s1 = - 1 \<and> candidateSource ?s1 = None"
    by (simp add: sevenGrid_def)
  with bsp run calls have "\<exists>s1. HandleCompleteSelect ?env CharBackspace (sevenGrid 1) = Inr (s1, False) \<and>
      inCompleteMode s1 \<and> \<not> inSelectMode s1 \<and> candidate s1 = None \<and> candidateComments s1 = None \<and>
      candidateChoise s1 = - 1 \<and> candidateOff s1 = - 1 \<and> candidateSource s1 = None \<and>
      (\<exists>s2. OnComplete ?env (s1\<lparr> op_buf := ([103], 1), width := 10 \<rparr>) = Inr (s2, True) \<and>
          do_calls s2 = [(Some [103], 1)])"
    by blast
  then show ?thesis
    by (simp add: sevenGrid_def)
qed

subsection \<open>Which keys are navigation\<close>

lemma renderGrid_writes:
  "renderGrid env s same cw cn = Inr s' \<Longrightarrow> \<exists>out. out \<noteq> [] \<and> w_out s' = w_out s @ out"
  by (auto simp: renderGrid_def pbind_def Let_def split: sum.splits prod.splits)

lemma CompleteRefresh_writes:
  "inCompleteMode s \<Longrightarrow> CompleteRefresh env s = Inr s' \<Longrightarrow>
   \<exists>out. out \<noteq> [] \<and> w_out s' = w_out s @ out"
  by (auto simp: CompleteRefresh_def pbind_def split: sum.splits prod.splits dest!: renderGrid_writes)

lemma CompleteRefresh_mode:
  "CompleteRefresh env s = Inr s' \<Longrightarrow> inCompleteMode s' = inCompleteMode s"
  by (auto dest!: CompleteRefresh_frame)

lemma CompleteRefresh_appends:
  "CompleteRefresh env s = Inr s' \<Longrightarrow> \<exists>out. w_out s' = w_out s @ out"
  by (auto dest!: CompleteRefresh_frame)

lemma selectKey_next:
  "selectKey env r s = Inr (s1, nx) \<Longrightarrow> nx = isNavigationKey r"
  unfolding selectKey_def isNavigationKey_def key_defs pbind_def Let_def
  by (auto split: if_splits sum.splits)

lemma selectKey_quiet:
  "selectKey env r s = Inr (s1, False) \<Longrightarrow> w_out s1 = w_out s"
  unfolding selectKey_def key_defs pbind_def Let_def
  by (auto simp: ExitCompleteSelectMode_def ExitCompleteMode_def split: if_splits sum.splits)

lemma selectKey_other_total:
  "\<not> isNavigationKey r \<Longrightarrow>
   (r = CharEnter \<or> r = CharCtrlJ \<longrightarrow> 0 \<le> candidateChoise s \<and> candidateChoise s < len (candidate s)) \<Longrightarrow>
   \<exists>s1. selectKey env r s = Inr (s1, False)"
  unfolding selectKey_def isNavigationKey_def key_defs pbind_def Let_def
  by (auto simp: at_def)

lemma selectKey_keeps_mode:
  "selectKey env r s = Inr (s1, True) \<Longrightarrow> len (candidate s) \<noteq> 1 \<Longrightarrow>
   inCompleteMode s1 = inCompleteMode s \<and> (\<exists>out. w_out s1 = w_out s @ out)"
  unfolding selectKey_def key_defs pbind_def Let_def doSelect_def nextCandidate_def
  by (auto split: if_splits sum.splits dest: CompleteRefresh_mode CompleteRefresh_appends)

text \<open>
  C9. \<open>HandleCompleteSelect\<close> returns \<open>true\<close> exactly for the keys LineStart, LineEnd, Tab,
  Forward, Backward, Next and Prev. For these keys every return is \<open>true\<close> and is the return
  of the \<open>CompleteRefresh\<close> that follows the move, which writes the grid when the engine
  is in complete mode with other than one candidate. For every other key every return is
  \<open>false\<close>, no refresh is made and nothing is written; and the call does return for such
  a key (for Enter and CtrlJ, when the chosen index is within the candidates).
\<close>

theorem HandleCompleteSelect_result:
  "(isNavigationKey r \<longrightarrow>
      (\<forall>s' b. HandleCompleteSelect env r s = Inr (s', b) \<longrightarrow>
         b \<and> (\<exists>s1. selectKey env r s = Inr (s1, True) \<and> CompleteRefresh env s1 = Inr s') \<and>
         (inCompleteMode s \<and> len (candidate s) \<noteq> 1 \<longrightarrow>
            (\<exists>out. out \<noteq> [] \<and> w_out s' = w_out s @ out)))) \<and>
   (\<not> isNavigationKey r \<longrightarrow>
      (\<forall>s' b. HandleCompleteSelect env r s = Inr (s', b) \<longrightarrow>
         \<not> b \<and> selectKey env r s = Inr (s', False) \<and> w_out s' = w_out s) \<and>
      ((r = CharEnter \<or> r = CharCtrlJ \<longrightarrow>
          0 \<le> candidateChoise s \<and> candidateChoise s < len (candidate s)) \<longrightarrow>
       (\<exists>s'. HandleCompleteSelect env r s = Inr (s', False))))"
proof (intro conjI impI allI)
  fix s' b
  assume nav: "isNavigationKey r" and run: "HandleCompleteSelect env r s = Inr (s', b)"
  from run obtain s1 nx where sk: "selectKey env r s = Inr (s1, nx)"
    by (auto simp: HandleCompleteSelect_def pbind_def split: sum.splits)
  with nav selectKey_next have nx by blast
  with run sk have b: "b" and rf: "CompleteRefresh env s1 = Inr s'"
    by (auto simp: HandleCompleteSelect_def pbind_def split: sum.splits)
  from b show "b" .
  from sk \<open>nx\<close> rf show "\<exists>s1. selectKey env r s = Inr (s1, True) \<and> CompleteRefresh env s1 = Inr s'"
    by auto
  assume "inCompleteMode s \<and> len (candidate s) \<noteq> 1"
  with sk \<open>nx\<close> selectKey_keeps_mode [of env r s s1]
  obtain out1 where "inCompleteMode s1" and o1: "w_out s1 = w_out s @ out1"
    by auto
  from CompleteRefresh_writes [OF this(1) rf] obtain out2 where "out2 \<noteq> []" and "w_out s' = w_out s1 @ out2"
    by blast
  with o1 have "out1 @ out2 \<noteq> [] \<and> w_out s' = w_out s @ (out1 @ out2)"
    by simp
  then show "\<exists>out. out \<noteq> [] \<and> w_out s' = w_out s @ out"
    by blast
next
  fix s' b
  assume nav: "\<not> isNavigationKey r" and run: "HandleCompleteSelect env r s = Inr (s', b)"
  from run obtain s1 nx where sk: "selectKey env r s = Inr (s1, nx)"
    by (auto simp: HandleCompleteSelect_def pbind_def split: sum.splits)
  with nav selectKey_next have nx: "\<not> nx" by blast
  with run sk have "s' = s1" and "\<not> b"
    by (auto simp: HandleCompleteSelect_def pbind_def)
  with sk nx show "\<not> b" and "selectKey env r s = Inr (s', False)" and "w_out s' = w_out s"
    by (auto dest: selectKey_quiet)
next
  assume "\<not> isNavigationKey r"
    and "r = CharEnter \<or> r = CharCtrlJ \<longrightarrow> 0 \<le> candidateChoise s \<and> candidateChoise s < len (candidate s)"
  from selectKey_other_total [OF this] obtain s1 where "selectKey env r s = Inr (s1, False)"
    by blast
  then show "\<exists>s'. HandleCompleteSelect env r s = Inr (s', False)"
    by (simp add: HandleCompleteSelect_def pbind_def)
qed

theorem HandleCompleteSelect_result_witness:
  "isNavigationKey CharBackward \<and>
   (\<exists>s'. HandleCompleteSelect (demoCollab oneCandidate) CharBackward (sevenGrid 1) = Inr (s', True) \<and>
         w_out s' \<noteq> w_out (sevenGrid 1)) \<and>
   \<not> isNavigationKey CharEnter \<and>
   (\<exists>s'. HandleCompleteSelect (demoCollab oneCandidate) CharEnter (sevenGrid 1) = Inr (s', False) \<and>
         w_out s' = w_out (sevenGrid 1))"
proof -
  let ?env = "demoCollab oneCandidate"
  have nav: "isNavigationKey CharBackward" and other: "\<not> isNavigationKey CharEnter"
    by (simp_all add: isNavigationKey_def key_defs)
  have "\<exists>s' b. HandleCompleteSelect ?env CharBackward (sevenGrid 1) = Inr (s', b)"
    by (simp add: sevenGrid_def key_defs demo_defs engine_defs) blast
  then obtain s' b where run: "HandleCompleteSelect ?env CharBackward (sevenGrid 1) = Inr (s', b)"
    by blast
  have pre: "inCompleteMode (sevenGrid 1) \<and> len (candidate (sevenGrid 1)) \<noteq> 1"
    by (simp add: sevenGrid_def len_def)
  from HandleCompleteSelect_result [of CharBackward ?env "sevenGrid 1"] nav run pre
  have "b \<and> (\<exists>out. out \<noteq> [] \<and> w_out s' = w_out (sevenGrid 1) @ out)"
    by blast
  with run have part1: "\<exists>s'. HandleCompleteSelect ?env CharBackward (sevenGrid 1) = Inr (s', True) \<and>
         w_out s' \<noteq> w_out (sevenGrid 1)"
    by auto
  have idx: "0 \<le> candidateChoise (sevenGrid 1) \<and> candidateChoise (sevenGrid 1) < len (candidate (sevenGrid 1))"
    by (simp add: sevenGrid_def len_def)
  from HandleCompleteSelect_result [of CharEnter ?env "sevenGrid 1"] other idx
  have part2: "\<exists>s'. HandleCompleteSelect ?env CharEnter (sevenGrid 1) = Inr (s', False) \<and>
         w_out s' = w_out (sevenGrid 1)"
    by blast
  from nav other part1 part2 show ?thesis
    by blast
qed

subsection \<open>The layout of the grid\<close>

lemma maxWidth_fold:
  "0 \<le> i \<Longrightarrow> i + int (length cs) \<le> len cm \<Longrightarrow>
   maxWidth W cm cs i acc =
     Inr (fold max (map2 (\<lambda>c x. W c + W x) cs (drop (nat i) (elems cm))) acc)"
proof (induction cs arbitrary: i acc)
  case Nil
  then show ?case by simp
next
  case (Cons c cs)
  from Cons.prems have inside: "nat i < length (elems cm)"
    by (auto simp: len_def elems_def split: option.splits)
  then have dr: "drop (nat i) (elems cm) = (elems cm ! nat i) # drop (nat (i + 1)) (elems cm)"
    using Cons.prems(1) by (simp add: Cons_nth_drop_Suc nat_add_distrib)
  from Cons.prems inside have here: "at cm i = Inr (elems cm ! nat i)"
    by (auto simp: at_def len_def elems_def split: option.splits)
  from Cons.prems have "0 \<le> i + 1" and "i + 1 + int (length cs) \<le> len cm"
    by simp_all
  from Cons.IH [OF this] here dr show ?case
    by (simp add: Let_def max_def)
qed

lemma fold_max_Max:
  "fold max xs (a::int) = Max (insert a (set xs))"
  by (metis Max.set_eq_fold list.simps(15))

lemma maxWidth_spec:
  assumes "0 < len (candidate s)" and "len (candidate s) \<le> len (candidateComments s)"
    and "\<forall>x. 0 \<le> WidthAll env x"
  shows "maxWidth (WidthAll env) (candidateComments s) (elems (candidate s)) 0 0 =
           Inr (Max (set (spec_candidateWidths env s)))"
proof -
  let ?ws = "spec_candidateWidths env s"
  from assms(1,2) have len: "(0::int) + int (length (elems (candidate s))) \<le> len (candidateComments s)"
    by (simp add: len_def elems_def split: option.splits)
  from assms(1,2) have "?ws \<noteq> []"
    by (auto simp: spec_candidateWidths_def len_def elems_def split: option.splits)
  moreover from assms(3) have "\<forall>w \<in> set ?ws. 0 \<le> w"
    by (auto simp: spec_candidateWidths_def dest!: set_zip_leftD)
  ultimately have "0 \<le> Max (set ?ws)"
    by (metis List.finite_set Max_ge_iff all_not_in_conv set_empty)
  with \<open>?ws \<noteq> []\<close> have "Max (insert 0 (set ?ws)) = Max (set ?ws)"
    by (simp add: max_def)
  with maxWidth_fold [OF _ len, of "WidthAll env" 0] show ?thesis
    by (simp add: fold_max_Max spec_candidateWidths_def)
qed

text \<open>
  C6. In complete mode, with at least one candidate, a comment for every candidate,
  display widths that are not negative and a column width that is not 0,
  \<open>CompleteRefresh\<close> lays the grid out as specified: the arithmetic of the source gives the
  specified final column width and column count, \<open>CompleteRefresh\<close> is the rendering with
  these two values, every return of it has stored the specified column count, and the
  count is 0 when the usable width is less than one column.
\<close>

theorem CompleteRefresh_layout:
  assumes "inCompleteMode s" and "0 < len (candidate s)"
    and "len (candidate s) \<le> len (candidateComments s)"
    and "\<forall>x. 0 \<le> WidthAll env x" and "spec_colWidth env s \<noteq> 0"
  shows "gridLayout (Max (set (spec_candidateWidths env s))) (candidateOff s) (width s) =
           Inr (spec_finalColWidth env s, spec_colNum env s) \<and>
         CompleteRefresh env s =
           pbind (RuneSlice env (op_buf s) (- candidateOff s)) (\<lambda>same.
             renderGrid env s same (spec_finalColWidth env s) (spec_colNum env s)) \<and>
         (\<forall>s'. CompleteRefresh env s = Inr s' \<longrightarrow> candidateColNum s' = spec_colNum env s) \<and>
         (0 \<le> spec_usableWidth s \<and> spec_usableWidth s < spec_colWidth env s \<longrightarrow>
            spec_colNum env s = 0)"
proof -
  let ?m = "Max (set (spec_candidateWidths env s))"
  from assms(5) have layout: "gridLayout ?m (candidateOff s) (width s) =
           Inr (spec_finalColWidth env s, spec_colNum env s)"
    by (simp add: gridLayout_def quo_def pbind_def Let_def spec_finalColWidth_def spec_colNum_def
        spec_usableWidth_def spec_colWidth_def add.assoc)
  from assms(1) maxWidth_spec [OF assms(2,3,4)] layout
  have refresh: "CompleteRefresh env s =
           pbind (RuneSlice env (op_buf s) (- candidateOff s)) (\<lambda>same.
             renderGrid env s same (spec_finalColWidth env s) (spec_colNum env s))"
    by (simp add: CompleteRefresh_def pbind_def split: sum.splits)
  have "candidateColNum s' = spec_colNum env s" if "CompleteRefresh env s = Inr s'" for s'
    using that unfolding refresh
    by (auto simp: pbind_def split: sum.splits dest!: renderGrid_frame)
  moreover have "spec_colNum env s = 0"
    if "0 \<le> spec_usableWidth s \<and> spec_usableWidth s < spec_colWidth env s"
    using that by (simp add: spec_colNum_def signed_divide_int_def)
  ultimately show ?thesis
    using layout refresh by blast
qed

theorem CompleteRefresh_layout_witness:
  "inCompleteMode (sevenGrid 0) \<and> 0 < len (candidate (sevenGrid 0)) \<and>
   spec_colWidth (demoCollab oneCandidate) (sevenGrid 0) = 3 \<and>
   spec_usableWidth (sevenGrid 0) = 9 \<and>
   spec_colNum (demoCollab oneCandidate) (sevenGrid 0) = 3 \<and>
   spec_finalColWidth (demoCollab oneCandidate) (sevenGrid 0) = 3 \<and>
   gridLayout 1 1 10 = Inr (3, 3) \<and>
   (\<exists>s'. CompleteRefresh (demoCollab oneCandidate) (sevenGrid 0) = Inr s' \<and> candidateColNum s' = 3)"
proof -
  let ?env = "demoCollab oneCandidate"
  have ws: "spec_candidateWidths ?env (sevenGrid 0) = [1, 1, 1, 1, 1, 1, 1]"
    by (simp add: spec_candidateWidths_def sevenGrid_def demoCollab_def elems_def)
  then have cw: "spec_colWidth ?env (sevenGrid 0) = 3"
    by (simp add: spec_colWidth_def sevenGrid_def)
  have uw: "spec_usableWidth (sevenGrid 0) = 9"
    by (simp add: spec_usableWidth_def sevenGrid_def)
  from cw uw have cn: "spec_colNum ?env (sevenGrid 0) = 3"
    by (simp add: spec_colNum_def signed_divide_int_def)
  from cw uw cn have fw: "spec_finalColWidth ?env (sevenGrid 0) = 3"
    by (simp add: spec_finalColWidth_def)
  have pre: "inCompleteMode (sevenGrid 0)" "0 < len (candidate (sevenGrid 0))"
    "len (candidate (sevenGrid 0)) \<le> len (candidateComments (sevenGrid 0))"
    "\<forall>x. 0 \<le> WidthAll ?env x" "spec_colWidth ?env (sevenGrid 0) \<noteq> 0"
    using cw by (simp_all add: sevenGrid_def len_def demoCollab_def)
  note lay = CompleteRefresh_layout [OF pre]
  from lay ws cw cn fw have g: "gridLayout 1 1 10 = Inr (3, 3)"
    by (simp add: sevenGrid_def)
  have "\<exists>s'. CompleteRefresh ?env (sevenGrid 0) = Inr s'"
    by (simp add: sevenGrid_def demo_defs engine_defs)
  with lay cn have "\<exists>s'. CompleteRefresh ?env (sevenGrid 0) = Inr s' \<and> candidateColNum s' = 3"
    by auto
  with pre cw uw cn fw g show ?thesis
    by blast
qed

subsection \<open>The chosen index in select mode\<close>


















text \<open>
  The column count must not be negative: on a terminal whose width is given as -1 the
  count is -1, and LineEnd takes the chosen index from 0 to -2.
\<close>

lemma LineEnd_negative_columns:
  "map_sum id (selectView \<circ> fst)
     (HandleCompleteSelect (demoCollab oneCandidate) CharLineEnd
        ((sevenGrid 0)\<lparr> width := - 1, candidateOff := 0, candidateColNum := - 1 \<rparr>)) =
   Inr (True, - 2, 7)"
  by (simp add: sevenGrid_def selectView_def key_defs demo_defs engine_defs)

section \<open>Properties of the prefix completer\<close>

lemmas match_defs =
  Do_def statusShow_def NewPrefixCompleter_def PcItem_def runes_of_def TrimSpaceLeft_def IsSpace_def
  HasPrefix_def append1_def elems_def len_def at_def leftover_def Let_def

lemma childrenLoop_empty_line:
  assumes "\<forall>c \<in> set cs. \<not> Dynamic c \<and> Name c \<noteq> []"
  shows "childrenLoop [] orig cs (nl, cl, off, lc, gn) =
           Inr (if cs = [] then (nl, cl, off, lc, gn)
                else (Some (elems nl @ map Name cs), Some (elems cl @ map Comment cs), 0,
                      Some (last cs), gn))"
  using assms
proof (induction cs arbitrary: nl cl off lc gn)
  case Nil
  then show ?case by simp
next
  case (Cons c cs)
  then have c: "\<not> Dynamic c" "Name c \<noteq> []" and rest: "\<forall>c \<in> set cs. \<not> Dynamic c \<and> Name c \<noteq> []"
    by simp_all
  from c have step: "namesLoop [] c (Some [Comment c]) [Name c] 0 (nl, cl, off, lc, gn) =
      Inr (append1 nl (Name c), append1 cl (Comment c), 0, Some c, gn)"
    by (simp add: HasPrefix_def at_def len_def elems_def)
  show ?case
    using c step Cons.IH [OF rest]
    by (simp add: elems_def append1_def)
qed

lemma doInternal_descend:
  assumes "\<forall>c \<in> set (Children n). \<not> Dynamic c \<and> Name c \<noteq> []"
  shows "doInternal n [] 0 orig =
           Inr (sliceOf (map Name (Children n)), sliceOf (map Comment (Children n)), 0)"
  using childrenLoop_empty_line [OF assms, of orig None None 0 None False]
  by (subst doInternal.simps)
     (auto simp: TrimSpaceLeft_def sliceOf_def len_def elems_def leftover_def Let_def)

text \<open>
  C4, as amended. On the tree whose root has the children \<open>status\<close> and \<open>show\<close> built with
  \<open>PcItem\<close>: \<open>Do\<close> on the line \<open>sta\<close> with the cursor at 3 returns exactly one candidate, \<open>tus\<close>
  followed by the space that \<open>PcItem\<close> appends to every name, with the comment of
  \<open>status\<close> and the shared offset 3. \<open>Do\<close> on the line \<open>status\<close> followed by a space, with the
  cursor at 7, is the match of the node \<open>status\<close> on the empty line; when the children of
  that node are static and named, it returns their names and comments with the offset 0.
\<close>

theorem prefix_tree_status_show:
  "Do (statusShow c1 cs1 c2 cs2) (runes_of ''sta'') 3 = Inr (Some [runes_of ''tus ''], Some [c1], 3) \<and>
   Do (statusShow c1 cs1 c2 cs2) (runes_of ''status '') 7 =
     doInternal (PcItem (runes_of ''status'') c1 cs1) [] 0 (runes_of ''status '') \<and>
   ((\<forall>c \<in> set cs1. \<not> Dynamic c \<and> Name c \<noteq> []) \<longrightarrow>
      Do (statusShow c1 cs1 c2 cs2) (runes_of ''status '') 7 =
        Inr (sliceOf (map Name cs1), sliceOf (map Comment cs1), 0))"
proof -
  have sta: "Do (statusShow c1 cs1 c2 cs2) (runes_of ''sta'') 3 =
      Inr (Some [runes_of ''tus ''], Some [c1], 3)"
    by (simp add: match_defs doInternal.simps)
  have status: "Do (statusShow c1 cs1 c2 cs2) (runes_of ''status '') 7 =
     doInternal (PcItem (runes_of ''status'') c1 cs1) [] 0 (runes_of ''status '')"
    by (simp add: match_defs doInternal.simps [of "PrefixCompleter _ _ _ _ _ [_, _]"])
  have "doInternal (PcItem (runes_of ''status'') c1 cs1) [] 0 (runes_of ''status '') =
        Inr (sliceOf (map Name cs1), sliceOf (map Comment cs1), 0)"
    if "\<forall>c \<in> set cs1. \<not> Dynamic c \<and> Name c \<noteq> []"
    using doInternal_descend [of "PcItem (runes_of ''status'') c1 cs1"] that
    by (simp add: PcItem_def)
  with sta status show ?thesis
    by simp
qed

theorem prefix_tree_status_show_witness:
  "Do (statusShow [] [PcItem (runes_of ''on'') [] [], PcItem (runes_of ''off'') [] []] [] [])
      (runes_of ''status '') 7 =
     Inr (Some [runes_of ''on '', runes_of ''off ''], Some [[], []], 0)"
proof -
  have static: "\<forall>c \<in> set [PcItem (runes_of ''on'') [] [], PcItem (runes_of ''off'') [] []].
       \<not> Dynamic c \<and> Name c \<noteq> []"
    by (simp add: PcItem_def)
  from prefix_tree_status_show [THEN conjunct2, THEN conjunct2, THEN mp, OF static, of "[]" "[]" "[]"]
  show ?thesis
    by (simp add: PcItem_def sliceOf_def runes_of_def)
qed

text \<open>
  The candidate for \<open>sta\<close> is not the bare rest \<open>tus\<close> of the name: it ends with the
  separator.
\<close>

theorem prefix_candidate_keeps_separator:
  "Do (statusShow [] [] [] []) (runes_of ''sta'') 3 = Inr (Some [[116, 117, 115, 32]], Some [[]], 3) \<and>
   [116, 117, 115, 32] \<noteq> runes_of ''tus''"
  by (simp add: match_defs doInternal.simps)

section \<open>Properties of the terminal\<close>

subsection \<open>Escape sequences\<close>

lemma escapeExKey_range:
  "escapeExKey key \<noteq> CharEsc \<and> escapeExKey key \<noteq> CharInterrupt \<and>
   escapeExKey key \<noteq> CharEnter \<and> escapeExKey key \<noteq> CharCtrlJ"
  by (simp add: escapeExKey_def key_defs)

lemma escapeSS3Key_range:
  "escapeSS3Key key \<noteq> CharEsc \<and> escapeSS3Key key \<noteq> CharInterrupt \<and>
   escapeSS3Key key \<noteq> CharEnter \<and> escapeSS3Key key \<noteq> CharCtrlJ \<and> escapeSS3Key key \<noteq> CharDelete"
  by (simp add: escapeSS3Key_def key_defs)

lemma Get2_ok:
  "snd (snd (Get2 key)) \<longleftrightarrow>
     (2 \<le> length (Split 59 (attr key)) \<and> Atoi (Split 59 (attr key) ! 0) \<noteq> None \<and>
      Atoi (Split 59 (attr key) ! 1) \<noteq> None)"
  by (auto simp: Get2_def Let_def split: option.splits)

text \<open>
  C5, as amended. Let \<open>key\<close> be the sequence that \<open>readEscKey\<close> completes in a round. The
  type letters A, B, C, D, H and F are mapped to \<open>CharPrev\<close>, \<open>CharNext\<close>, \<open>CharForward\<close>,
  \<open>CharBackward\<close>, \<open>CharLineStart\<close> and \<open>CharLineEnd\<close> after \<open>ESC [\<close> and after \<open>ESC O\<close>, and
  \<open>~\<close> with the attribute \<open>3\<close> to \<open>CharDelete\<close> after \<open>ESC [\<close>; a key that is mapped is what
  the round hands over. A report (type R after \<open>ESC [\<close>) is never handed over as a key:
  its attribute is split on \<open>;\<close>, and it is put into \<open>sizeChan\<close> when there are two fields
  or more, the first two are integers and \<open>sizeChan\<close> is empty; otherwise it is dropped.
\<close>

theorem escape_sequences_decoded:
  assumes "\<not> isEscape s" and "stdin s = r # input" and "readEscKey tab r input = (key, rest)"
  shows "(ktyp key = 65 \<longrightarrow> escapeExKey key = CharPrev \<and> escapeSS3Key key = CharPrev) \<and>
         (ktyp key = 66 \<longrightarrow> escapeExKey key = CharNext \<and> escapeSS3Key key = CharNext) \<and>
         (ktyp key = 67 \<longrightarrow> escapeExKey key = CharForward \<and> escapeSS3Key key = CharForward) \<and>
         (ktyp key = 68 \<longrightarrow> escapeExKey key = CharBackward \<and> escapeSS3Key key = CharBackward) \<and>
         (ktyp key = 72 \<longrightarrow> escapeExKey key = CharLineStart \<and> escapeSS3Key key = CharLineStart) \<and>
         (ktyp key = 70 \<longrightarrow> escapeExKey key = CharLineEnd \<and> escapeSS3Key key = CharLineEnd) \<and>
         (ktyp key = 126 \<and> attr key = [51] \<longrightarrow> escapeExKey key = CharDelete) \<and>
         (isEscapeEx s \<and> ktyp key \<noteq> 82 \<and> escapeExKey key \<noteq> 0 \<longrightarrow>
            ioloop_round tab vimMode stop None s =
              deliver stop (escapeExKey key)
                (s\<lparr> expectNextChar := (escapeExKey key \<noteq> CharDelete), isEscapeEx := False,
                    stdin := rest \<rparr>)) \<and>
         (\<not> isEscapeEx s \<and> isEscapeSS3 s \<and> escapeSS3Key key \<noteq> 0 \<longrightarrow>
            ioloop_round tab vimMode stop None s =
              deliver stop (escapeSS3Key key)
                (s\<lparr> expectNextChar := True, isEscapeSS3 := False, stdin := rest \<rparr>)) \<and>
         (isEscapeEx s \<and> ktyp key = 82 \<longrightarrow>
            ioloop_round tab vimMode stop None s =
              Continue (s\<lparr> expectNextChar := True, isEscapeEx := False, stdin := rest,
                          sizeChan := (if 2 \<le> length (Split 59 (attr key)) \<and>
                                          Atoi (Split 59 (attr key) ! 0) \<noteq> None \<and>
                                          Atoi (Split 59 (attr key) ! 1) \<noteq> None \<and>
                                          sizeChan s = []
                                       then [attr key] else sizeChan s) \<rparr>))"
proof -
  have maps: "(ktyp key = 65 \<longrightarrow> escapeExKey key = CharPrev \<and> escapeSS3Key key = CharPrev) \<and>
         (ktyp key = 66 \<longrightarrow> escapeExKey key = CharNext \<and> escapeSS3Key key = CharNext) \<and>
         (ktyp key = 67 \<longrightarrow> escapeExKey key = CharForward \<and> escapeSS3Key key = CharForward) \<and>
         (ktyp key = 68 \<longrightarrow> escapeExKey key = CharBackward \<and> escapeSS3Key key = CharBackward) \<and>
         (ktyp key = 72 \<longrightarrow> escapeExKey key = CharLineStart \<and> escapeSS3Key key = CharLineStart) \<and>
         (ktyp key = 70 \<longrightarrow> escapeExKey key = CharLineEnd \<and> escapeSS3Key key = CharLineEnd) \<and>
         (ktyp key = 126 \<and> attr key = [51] \<longrightarrow> escapeExKey key = CharDelete)"
    by (simp add: escapeExKey_def escapeSS3Key_def)
  have csi: "ioloop_round tab vimMode stop None s =
              deliver stop (escapeExKey key)
                (s\<lparr> expectNextChar := (escapeExKey key \<noteq> CharDelete), isEscapeEx := False,
                    stdin := rest \<rparr>)"
    if "isEscapeEx s" and "ktyp key \<noteq> 82" and "escapeExKey key \<noteq> 0"
    using that assms escapeExKey_range [of key]
    by (simp add: ioloop_round_def dispatch_def deliver_def Let_def)
  have ss3: "ioloop_round tab vimMode stop None s =
              deliver stop (escapeSS3Key key)
                (s\<lparr> expectNextChar := True, isEscapeSS3 := False, stdin := rest \<rparr>)"
    if "\<not> isEscapeEx s" and "isEscapeSS3 s" and "escapeSS3Key key \<noteq> 0"
    using that assms escapeSS3Key_range [of key]
    by (simp add: ioloop_round_def dispatch_def deliver_def Let_def)
  have rep: "ioloop_round tab vimMode stop None s =
              Continue (s\<lparr> expectNextChar := True, isEscapeEx := False, stdin := rest,
                          sizeChan := (if 2 \<le> length (Split 59 (attr key)) \<and>
                                          Atoi (Split 59 (attr key) ! 0) \<noteq> None \<and>
                                          Atoi (Split 59 (attr key) ! 1) \<noteq> None \<and>
                                          sizeChan s = []
                                       then [attr key] else sizeChan s) \<rparr>)"
    if "isEscapeEx s" and "ktyp key = 82"
    using that assms Get2_ok [of key]
    by (auto simp: ioloop_round_def Let_def trySend_def split: prod.splits)
  from maps csi ss3 rep show ?thesis
    by blast
qed

text \<open>
  A well-formed report is not always delivered: the report \<open>2;3\<close> that arrives while
  the report \<open>1;1\<close> is still in \<open>sizeChan\<close> is dropped.
\<close>

theorem report_dropped_when_slot_full:
  "Get2 \<lparr> attr = [50, 59, 51], ktyp = 82 \<rparr> = (2, 3, True) \<and>
   ioloop_round (\<lambda>r. False) False False None (csiPending [50, 59, 51, 82] [[49, 59, 49]]) =
     Continue \<lparr> isEscape = False, isEscapeEx = False, isEscapeSS3 = False, expectNextChar = True,
       stdin = [], sizeChan = [[49, 59, 49]], outchan = [] \<rparr>"
  by (simp add: csiPending_def ioloop_round_def readEscKey_def IsNumber_def isDigit_def
      escapeExKey_def Get2_def Atoi_def trySend_def Let_def)

theorem escape_sequences_decoded_witness:
  "\<not> isEscape (csiPending [65] []) \<and> stdin (csiPending [65] []) = [65] \<and>
   readEscKey (\<lambda>r. False) 65 [] = (\<lparr> attr = [], ktyp = 65 \<rparr>, []) \<and>
   ioloop_round (\<lambda>r. False) False False None (csiPending [65] []) =
     Continue \<lparr> isEscape = False, isEscapeEx = False, isEscapeSS3 = False, expectNextChar = True,
       stdin = [], sizeChan = [], outchan = [CharPrev] \<rparr> \<and>
   \<not> isEscape (csiPending [50, 59, 51, 82] []) \<and>
   readEscKey (\<lambda>r. False) 50 [59, 51, 82] = (\<lparr> attr = [50, 59, 51], ktyp = 82 \<rparr>, []) \<and>
   ioloop_round (\<lambda>r. False) False False None (csiPending [50, 59, 51, 82] []) =
     Continue \<lparr> isEscape = False, isEscapeEx = False, isEscapeSS3 = False, expectNextChar = True,
       stdin = [], sizeChan = [[50, 59, 51]], outchan = [] \<rparr>"
proof -
  have k1: "readEscKey (\<lambda>r. False) 65 [] = (\<lparr> attr = [], ktyp = 65 \<rparr>, [])"
    by (simp add: readEscKey_def IsNumber_def isDigit_def)
  have k2: "readEscKey (\<lambda>r. False) 50 [59, 51, 82] = (\<lparr> attr = [50, 59, 51], ktyp = 82 \<rparr>, [])"
    by (simp add: readEscKey_def IsNumber_def isDigit_def)
  from escape_sequences_decoded [of "csiPending [65] []" 65 "[]" "\<lambda>r. False" _ _ False False, OF _ _ k1]
  have r1: "ioloop_round (\<lambda>r. False) False False None (csiPending [65] []) =
     Continue \<lparr> isEscape = False, isEscapeEx = False, isEscapeSS3 = False, expectNextChar = True,
       stdin = [], sizeChan = [], outchan = [CharPrev] \<rparr>"
    by (simp add: csiPending_def escapeExKey_def deliver_def key_defs)
  from escape_sequences_decoded [of "csiPending [50, 59, 51, 82] []" 50 "[59, 51, 82]" "\<lambda>r. False" _ _ False False, OF _ _ k2]
  have r2: "ioloop_round (\<lambda>r. False) False False None (csiPending [50, 59, 51, 82] []) =
     Continue \<lparr> isEscape = False, isEscapeEx = False, isEscapeSS3 = False, expectNextChar = True,
       stdin = [], sizeChan = [[50, 59, 51]], outchan = [] \<rparr>"
    by (simp add: csiPending_def Atoi_def isDigit_def)
  from k1 k2 r1 r2 show ?thesis
    by (simp add: csiPending_def)
qed

subsection \<open>Closing and the end of the stream\<close>

text \<open>
  C7. \<open>Close\<close> is idempotent. On a terminal that is not closed yet, the first call closes
  stdin when it is a closer, closes \<open>stopChan\<close>, waits for the reader loop and leaves raw
  mode, in this order, and returns what leaving raw mode returns. In the state it leaves,
  a further call returns nil and changes nothing: no effect is repeated and nothing
  panics, and so for every call after it.
\<close>

theorem Close_idempotent:
  "closed t = 0 \<Longrightarrow> \<not> stopChanClosed t \<Longrightarrow>
   \<exists>t1. Close cfg t = Inr (t1, exitRawError cfg) \<and>
        effects t1 = effects t @ (if stdinIsCloser cfg then [StdinClose] else []) @
                       [StopChanClose, LoopWait, ExitRaw] \<and>
        Close cfg' t1 = Inr (t1, None)"
  by (simp add: Close_def Let_def)

theorem Close_idempotent_witness:
  "closed NewTerminal = 0 \<and> \<not> stopChanClosed NewTerminal \<and>
   (\<exists>t1. Close \<lparr> stdinIsCloser = True, exitRawError = Some ''errno 5'' \<rparr> NewTerminal
            = Inr (t1, Some ''errno 5'') \<and>
         effects t1 = [StdinClose, StopChanClose, LoopWait, ExitRaw] \<and>
         Close \<lparr> stdinIsCloser = True, exitRawError = Some ''errno 5'' \<rparr> t1 = Inr (t1, None))"
  using Close_idempotent [of NewTerminal "\<lparr> stdinIsCloser = True, exitRawError = Some ''errno 5'' \<rparr>"
      "\<lparr> stdinIsCloser = True, exitRawError = Some ''errno 5'' \<rparr>"]
  by (simp add: NewTerminal_def)

text \<open>
  C10. \<open>ReadRune\<close> returns 0 when \<open>outchan\<close> is closed. A NUL read from the input outside
  an escape sequence is handed over on \<open>outchan\<close> as the key 0 like any other key, and
  \<open>ReadRune\<close> returns the same value for that key as for the closed channel.
\<close>

theorem ReadRune_nul_is_end_of_stream:
  "ReadRune Closed = 0 \<and> ReadRune (Received 0) = ReadRune Closed \<and>
   ioloop_round tab vimMode False None
     (s\<lparr> isEscape := False, isEscapeEx := False, isEscapeSS3 := False, stdin := 0 # input \<rparr>) =
   Continue (s\<lparr> isEscape := False, isEscapeEx := False, isEscapeSS3 := False,
                expectNextChar := True, stdin := input, outchan := outchan s @ [0] \<rparr>)"
  by (simp add: ReadRune_def ioloop_round_def dispatch_def deliver_def key_defs Let_def)

end
